theory Spec2Isabelle
  imports
    Complex_Main
    "HOL-Library.Product_Lexorder"
    "HOL-Library.List_Lexorder"
    "HOL-Library.Char_ord"
begin

section \<open>Data model\<close>

text \<open>
  The five dashboard pages (\<^verbatim>\<open>energia.py\<close>, \<^verbatim>\<open>potencia.py\<close>,
  \<^verbatim>\<open>potencia_distribuidoras.py\<close>, \<^verbatim>\<open>precio_potencia.py\<close>,
  \<^verbatim>\<open>precios_peaje_distribucion.py\<close>) read a wide spreadsheet, reshape it into a long
  table and aggregate it with pandas.

  \<^item> A Python \<^verbatim>\<open>str\<close> is a \<^typ>\<open>string\<close>: one \<^typ>\<open>char\<close> per code point, so
    the model covers the code points below 256 (Latin-1, which holds every label the
    pages look for). Strings are ordered by code point (\<^theory_text>\<open>List_Lexorder\<close>,
    \<^theory_text>\<open>Char_ord\<close>), as Python orders them.
  \<^item> A \<^verbatim>\<open>datetime\<close> or pandas \<^verbatim>\<open>Timestamp\<close> without time zone is the tuple
    (year, month, day, microsecond of the day), ordered lexicographically
    (\<^theory_text>\<open>Product_Lexorder\<close>), as Python compares them.
  \<^item> A spreadsheet cell of a measurement column is a number, blank (pandas \<^verbatim>\<open>NaN\<close>)
    or text. Numbers are real numbers: the rounding of float64 arithmetic is not
    modelled. A cell of the identity columns \<^verbatim>\<open>AGENTE\<close> and \<^verbatim>\<open>EMPRESA\<close> is text or
    blank (\<^term>\<open>None\<close>).
\<close>

type_synonym datetime = "nat \<times> nat \<times> nat \<times> nat"

datatype cell = Num real | Blank | Text string

text \<open>
  A row of the long table the loaders return. \<open>valor\<close> is the measurement column, which
  each page names after its measurement (\<^verbatim>\<open>'Energia MWh'\<close>, \<^verbatim>\<open>'Potencia kW'\<close>,
  \<^verbatim>\<open>'Precio Potencia US$/kW'\<close>, \<^verbatim>\<open>'Peaje generacion USD/MWh'\<close>, the first and the last
  with an acute accent).
\<close>

record long_record =
  AGENTE :: "string option"
  EMPRESA :: "string option"
  FECHA :: datetime
  valor :: cell
  Periodo :: string

section \<open>Strings\<close>

text \<open>
  The code points below 256 that \<^verbatim>\<open>str.split()\<close> and \<^verbatim>\<open>str.strip()\<close> treat as
  white space: 9 to 13, 28 to 32, 133 and 160.
\<close>

definition isspace :: "char \<Rightarrow> bool" where
  "isspace c =
     (let n = (of_char c :: nat)
      in (9 \<le> n \<and> n \<le> 13) \<or> (28 \<le> n \<and> n \<le> 32) \<or> n = 133 \<or> n = 160)"

text \<open>\<^verbatim>\<open>s.strip()\<close>\<close>

definition str_strip :: "string \<Rightarrow> string" where
  "str_strip s = rev (dropWhile isspace (rev (dropWhile isspace s)))"

text \<open>\<^verbatim>\<open>s.split()\<close>: the maximal runs of characters that are not white space.\<close>

fun str_split :: "string \<Rightarrow> string list" where
  "str_split [] = []"
| "str_split (c # cs) =
     (if isspace c then str_split cs
      else (case cs of
              [] \<Rightarrow> [[c]]
            | d # _ \<Rightarrow>
                if isspace d then [c] # str_split cs
                else (case str_split cs of w # ws \<Rightarrow> (c # w) # ws | [] \<Rightarrow> [[c]])))"

text \<open>\<^verbatim>\<open>sub in s\<close>\<close>

fun contains :: "string \<Rightarrow> string \<Rightarrow> bool" where
  "contains sub [] = (sub = [])"
| "contains sub (c # cs) = (take (length sub) (c # cs) = sub \<or> contains sub cs)"

definition isdigit :: "char \<Rightarrow> bool" where
  "isdigit c = (48 \<le> (of_char c :: nat) \<and> (of_char c :: nat) \<le> 57)"

definition digit_value :: "char \<Rightarrow> nat" where
  "digit_value c = of_char c - 48"

text \<open>
  \<^verbatim>\<open>int(s)\<close> in base ten: white space around, an optional sign, then decimal digits,
  where a single underscore may stand between two digits. \<^term>\<open>None\<close> is
  \<^verbatim>\<open>ValueError\<close>. The white space that \<^verbatim>\<open>int()\<close> skips is narrower than that of
  \<^verbatim>\<open>str.strip()\<close>: the separators 28 to 31 are not part of it, and \<^verbatim>\<open>int()\<close>
  of a string that holds one of them is a \<^verbatim>\<open>ValueError\<close>.
\<close>

definition int_isspace :: "char \<Rightarrow> bool" where
  "int_isspace c =
     (let n = (of_char c :: nat)
      in (9 \<le> n \<and> n \<le> 13) \<or> n = 32 \<or> n = 133 \<or> n = 160)"

definition int_strip :: "string \<Rightarrow> string" where
  "int_strip s = rev (dropWhile int_isspace (rev (dropWhile int_isspace s)))"

fun int_digits :: "nat \<Rightarrow> string \<Rightarrow> nat option" where
  "int_digits acc [] = Some acc"
| "int_digits acc (c # cs) =
     (if isdigit c then int_digits (10 * acc + digit_value c) cs
      else if c = CHR ''_'' then
        (case cs of
           [] \<Rightarrow> None
         | d # ds \<Rightarrow> if isdigit d then int_digits (10 * acc + digit_value d) ds else None)
      else None)"

definition int_unsigned :: "string \<Rightarrow> nat option" where
  "int_unsigned s =
     (case s of
        [] \<Rightarrow> None
      | c # cs \<Rightarrow> if isdigit c then int_digits (digit_value c) cs else None)"

definition py_int :: "string \<Rightarrow> int option" where
  "py_int s =
     (case int_strip s of
        [] \<Rightarrow> None
      | c # cs \<Rightarrow>
          if c = CHR ''+'' then map_option int (int_unsigned cs)
          else if c = CHR ''-'' then map_option (\<lambda>n. - int n) (int_unsigned cs)
          else map_option int (int_unsigned (c # cs)))"

section \<open>Dates\<close>

definition year :: "datetime \<Rightarrow> nat" where
  "year t = fst t"

definition month :: "datetime \<Rightarrow> nat" where
  "month t = fst (snd t)"

definition day :: "datetime \<Rightarrow> nat" where
  "day t = fst (snd (snd t))"

text \<open>
  \<^verbatim>\<open>datetime(year, month, 1)\<close>: \<^verbatim>\<open>ValueError\<close> (\<^term>\<open>None\<close>) unless the year is in
  1..9999 and the month in 1..12.
\<close>

definition datetime :: "int \<Rightarrow> int \<Rightarrow> datetime option" where
  "datetime y m =
     (if 1 \<le> y \<and> y \<le> 9999 \<and> 1 \<le> m \<and> m \<le> 12
      then Some (nat y, nat m, 1, 0) else None)"

text \<open>
  \<^verbatim>\<open>t.replace(year=y, month=m)\<close>, which the pages call on first days of a month only
  (so the day always exists in the new month): \<^verbatim>\<open>ValueError\<close> outside the same
  ranges.
\<close>

definition dt_replace :: "datetime \<Rightarrow> nat \<Rightarrow> nat \<Rightarrow> datetime option" where
  "dt_replace t y m =
     (case t of (_, _, d, us) \<Rightarrow>
        if 1 \<le> y \<and> y \<le> 9999 \<and> 1 \<le> m \<and> m \<le> 12 then Some (y, m, d, us) else None)"

definition digit_char :: "nat \<Rightarrow> char" where
  "digit_char d = char_of (48 + d)"

text \<open>Decimal digits, zero-padded to two and to four places.\<close>

definition digits2 :: "nat \<Rightarrow> string" where
  "digits2 n = [digit_char (n div 10 mod 10), digit_char (n mod 10)]"

definition digits4 :: "nat \<Rightarrow> string" where
  "digits4 n =
     [digit_char (n div 1000 mod 10), digit_char (n div 100 mod 10),
      digit_char (n div 10 mod 10), digit_char (n mod 10)]"

text \<open>
  \<^verbatim>\<open>strftime\<close> with the formats \<^verbatim>\<open>%m\<close> (two digits), \<^verbatim>\<open>%Y\<close> (four digits for the
  years 1000 to 9999 the pages format) and \<^verbatim>\<open>%y\<close> (the last two digits of the year).
\<close>

definition strftime_m :: "datetime \<Rightarrow> string" where
  "strftime_m t = digits2 (month t)"

definition strftime_Y :: "datetime \<Rightarrow> string" where
  "strftime_Y t = digits4 (year t)"

definition strftime_y :: "datetime \<Rightarrow> string" where
  "strftime_y t = digits2 (year t mod 100)"

text \<open>The first day of a month of the calendar, at midnight.\<close>

definition first_of_month :: "datetime \<Rightarrow> bool" where
  "first_of_month t =
     (case t of (y, m, d, us) \<Rightarrow>
        1 \<le> y \<and> y \<le> 9999 \<and> 1 \<le> m \<and> m \<le> 12 \<and> d = 1 \<and> us = 0)"

text \<open>
  \<^verbatim>\<open>pd.to_datetime(current_date.strftime('%Y-%m-01'))\<close>: the dictionary of periods
  stores the text of the first day of the month, which \<^verbatim>\<open>pd.to_datetime\<close> reads back
  as that day at midnight (\<^verbatim>\<open>energia.py\<close> 61 and 84).
\<close>

definition first_day :: "datetime \<Rightarrow> datetime" where
  "first_day t = (year t, month t, 1, 0)"

text \<open>\<^verbatim>\<open>s.lower()\<close> on the code points below 256.\<close>

definition str_lower :: "string \<Rightarrow> string" where
  "str_lower s =
     map (\<lambda>c. let n = (of_char c :: nat)
              in if (65 \<le> n \<and> n \<le> 90) \<or> (192 \<le> n \<and> n \<le> 222 \<and> n \<noteq> 215)
                 then char_of (n + 32) else c) s"

section \<open>Period parser\<close>

text \<open>
  The loop that fills \<^verbatim>\<open>date_mapping\<close> (\<^verbatim>\<open>energia.py\<close> 54-68, \<^verbatim>\<open>potencia.py\<close> 54-68,
  \<^verbatim>\<open>potencia_distribuidoras.py\<close> 37-42, \<^verbatim>\<open>precio_potencia.py\<close> 32-46):
  \<^verbatim>\<open>
  while current_date <= end_date:
      date_mapping[key(current_date)] = current_date.strftime('%Y-%m-01')
      if current_date.month == 12:
          current_date = current_date.replace(year=current_date.year + 1, month=1)
      else:
          current_date = current_date.replace(month=current_date.month + 1)
  \<close>
  The result is \<^term>\<open>None\<close> when \<^verbatim>\<open>replace\<close> raises \<^verbatim>\<open>ValueError\<close>.
\<close>

definition next_month :: "datetime \<Rightarrow> datetime option" where
  "next_month current_date =
     (if month current_date = 12
      then dt_replace current_date (year current_date + 1) 1
      else dt_replace current_date (year current_date) (month current_date + 1))"

function date_mapping_loop ::
  "(datetime \<Rightarrow> string) \<Rightarrow> datetime \<Rightarrow> datetime \<Rightarrow> (string \<rightharpoonup> datetime)
     \<Rightarrow> (string \<rightharpoonup> datetime) option" where
  "date_mapping_loop key end_date current_date date_mapping =
     (if current_date \<le> end_date then
        (case next_month current_date of
           None \<Rightarrow> None
         | Some next_date \<Rightarrow>
             date_mapping_loop key end_date next_date
               (date_mapping(key current_date \<mapsto> first_day current_date)))
      else Some date_mapping)"
  by pat_completeness auto
termination
proof (relation "measures [\<lambda>(key, e, c, dm). year e + 1 - year c, \<lambda>(key, e, c, dm). 13 - month c]")
  show "wf (measures [\<lambda>(key, e, c, dm). year e + 1 - year c, \<lambda>(key, e, c, dm). 13 - month c])"
    by simp
next
  fix key :: "datetime \<Rightarrow> string" and end_date current_date :: datetime
    and date_mapping :: "string \<rightharpoonup> datetime" and next_date
  assume le: "current_date \<le> end_date"
    and nxt: "next_month current_date = Some next_date"
  obtain y m d us where c: "current_date = (y, m, d, us)" by (cases current_date)
  obtain ye me de use where e: "end_date = (ye, me, de, use)" by (cases end_date)
  from le c e have "y \<le> ye" by (auto simp: less_eq_prod_def)
  with nxt c e
  show "((key, end_date, next_date, date_mapping(key current_date \<mapsto> first_day current_date)),
         (key, end_date, current_date, date_mapping))
        \<in> measures [\<lambda>(key, e, c, dm). year e + 1 - year c, \<lambda>(key, e, c, dm). 13 - month c]"
    by (auto simp: next_month_def dt_replace_def year_def month_def split: if_splits)
qed

declare date_mapping_loop.simps [simp del]

text \<open>
  \<^verbatim>\<open>energia.py\<close> 54-68 (and \<^verbatim>\<open>potencia.py\<close>, \<^verbatim>\<open>potencia_distribuidoras.py\<close>): keys
  \<^verbatim>\<open>strftime('%m%Y')\<close>, from January 2023 to December 2025.
\<close>

definition energia_date_mapping :: "(string \<rightharpoonup> datetime) option" where
  "energia_date_mapping =
     date_mapping_loop (\<lambda>t. strftime_m t @ strftime_Y t) (2025, 12, 1, 0) (2023, 1, 1, 0) Map.empty"

text \<open>
  \<^verbatim>\<open>energia.py\<close> 76-78: \<^verbatim>\<open>date_mapping.get(period[:2] + period[2:], pd.NaT)\<close>;
  \<^term>\<open>None\<close> is \<^verbatim>\<open>NaT\<close>.
\<close>

definition energia_fecha :: "(string \<rightharpoonup> datetime) \<Rightarrow> string \<Rightarrow> datetime option" where
  "energia_fecha date_mapping period = date_mapping (take 2 period @ drop 2 period)"

text \<open>
  \<^verbatim>\<open>precio_potencia.py\<close> 32-46: keys \<^verbatim>\<open>strftime('%m%y').lower()\<close>, from January 2023 to
  \<^verbatim>\<open>datetime.today()\<close>; line 52 looks the period up as it is.
\<close>

definition precio_potencia_date_mapping :: "datetime \<Rightarrow> (string \<rightharpoonup> datetime) option" where
  "precio_potencia_date_mapping today =
     date_mapping_loop (\<lambda>t. str_lower (strftime_m t @ strftime_y t)) today (2023, 1, 1, 0) Map.empty"

definition precio_potencia_fecha :: "(string \<rightharpoonup> datetime) \<Rightarrow> string \<Rightarrow> datetime option" where
  "precio_potencia_fecha date_mapping period = date_mapping period"

text \<open>
  \<^verbatim>\<open>precios_peaje_distribucion.py\<close> 36-52: the period code is read by its length; any
  exception skips the column (\<^term>\<open>None\<close>), as a code of another length does.
  \<^verbatim>\<open>
  if len(period_code) == 5:
      month = int(period_code[0]); year = int(period_code[1:5])
  elif len(period_code) == 6:
      month = int(period_code[0:2]); year = int(period_code[2:6])
  else:
      continue
  date = datetime(year, month, 1)
  \<close>
\<close>

definition peaje_fecha :: "string \<Rightarrow> datetime option" where
  "peaje_fecha period_code =
     (if length period_code = 5 then
        (case py_int (take 1 period_code) of
           None \<Rightarrow> None
         | Some m \<Rightarrow>
             (case py_int (take 4 (drop 1 period_code)) of
                None \<Rightarrow> None
              | Some y \<Rightarrow> datetime y m))
      else if length period_code = 6 then
        (case py_int (take 2 period_code) of
           None \<Rightarrow> None
         | Some m \<Rightarrow>
             (case py_int (take 4 (drop 2 period_code)) of
                None \<Rightarrow> None
              | Some y \<Rightarrow> datetime y m))
      else None)"

section \<open>Date filter\<close>

text \<open>
  \<^verbatim>\<open>df_filtered = df[(df['FECHA'] >= start_date) & (df['FECHA'] <= end_date)]\<close>
  (\<^verbatim>\<open>energia.py\<close> 128-131, \<^verbatim>\<open>precios_peaje_distribucion.py\<close> 111): a boolean mask keeps
  the rows it selects, in their order.
\<close>

definition df_filtered :: "datetime \<Rightarrow> datetime \<Rightarrow> long_record list \<Rightarrow> long_record list" where
  "df_filtered start_date end_date df =
     filter (\<lambda>r. FECHA r \<ge> start_date \<and> FECHA r \<le> end_date) df"


section \<open>Loaders\<close>

text \<open>
  The wide table \<^verbatim>\<open>pd.read_excel\<close> returns: \<open>n_rows\<close> rows, the identity columns
  \<^verbatim>\<open>AGENTE\<close> and \<^verbatim>\<open>EMPRESA\<close> (\<^term>\<open>None\<close> when the sheet has no column of that label),
  and the other columns with their labels, in the order of the sheet. A label is a
  string, or a value of another type (a number or a date in the header row).
\<close>

datatype label = Str string | NonStr

record raw_table =
  n_rows :: nat
  AGENTE_column :: "string option list option"
  EMPRESA_column :: "string option list option"
  columns :: "(label \<times> cell list) list"

text \<open>Every column of a \<^verbatim>\<open>DataFrame\<close> has one cell per row.\<close>

definition rectangular :: "raw_table \<Rightarrow> bool" where
  "rectangular df =
     (list_all (\<lambda>c. length (snd c) = n_rows df) (columns df)
      \<and> (case AGENTE_column df of None \<Rightarrow> True | Some a \<Rightarrow> length a = n_rows df)
      \<and> (case EMPRESA_column df of None \<Rightarrow> True | Some e \<Rightarrow> length e = n_rows df))"

text \<open>\<^verbatim>\<open>df.empty\<close>: no row or no column.\<close>

definition df_empty :: "raw_table \<Rightarrow> bool" where
  "df_empty df =
     (n_rows df = 0
      \<or> (AGENTE_column df = None \<and> EMPRESA_column df = None \<and> columns df = []))"

datatype exception = TypeError | KeyError | ValueError | IndexError | AttributeError | OSError

text \<open>
  What a loader reads from its environment: whether the data directory and the file
  exist, and what \<^verbatim>\<open>pd.read_excel\<close> does with the file, which is to raise or to return
  a table.
\<close>

record environment =
  base_path_exists :: bool
  file_path_exists :: bool
  read_excel :: "exception + raw_table"

text \<open>
  \<^verbatim>\<open>df.columns = df.columns.str.strip()\<close> followed by
  \<^verbatim>\<open>[col for col in df.columns if measurement in col]\<close>: a label that is not a string
  raises (\<^verbatim>\<open>.str\<close> refuses the index, or \<^verbatim>\<open>in\<close> refuses the \<^verbatim>\<open>NaN\<close> that
  \<^verbatim>\<open>strip\<close> left in its place).
\<close>

fun strip_labels :: "(label \<times> cell list) list \<Rightarrow> exception + (string \<times> cell list) list" where
  "strip_labels [] = Inr []"
| "strip_labels ((NonStr, cells) # cols) = Inl TypeError"
| "strip_labels ((Str s, cells) # cols) =
     (case strip_labels cols of
        Inl e \<Rightarrow> Inl e
      | Inr rest \<Rightarrow> Inr ((str_strip s, cells) # rest))"

definition price_columns :: "string \<Rightarrow> (string \<times> cell list) list \<Rightarrow> string list" where
  "price_columns measurement cols = filter (contains measurement) (map fst cols)"

text \<open>
  \<^verbatim>\<open>temp_df[col]\<close> as one column: when two columns share the label it is a
  \<^verbatim>\<open>DataFrame\<close>, and the statement that uses it raises.
\<close>

definition column_cells :: "(string \<times> cell list) list \<Rightarrow> string \<Rightarrow> cell list option" where
  "column_cells cols col =
     (case filter (\<lambda>c. fst c = col) cols of [c] \<Rightarrow> Some (snd c) | _ \<Rightarrow> None)"

text \<open>\<^verbatim>\<open>col.split()[-1]\<close>\<close>

definition last_word :: "string \<Rightarrow> exception + string" where
  "last_word col = (case str_split col of [] \<Rightarrow> Inl IndexError | w # ws \<Rightarrow> Inr (last (w # ws)))"

text \<open>\<^verbatim>\<open>df[['AGENTE', 'EMPRESA', col]]\<close>: \<^verbatim>\<open>KeyError\<close> when an identity column is missing.\<close>

definition identity_columns ::
  "raw_table \<Rightarrow> exception + (string option \<times> string option) list" where
  "identity_columns df =
     (case AGENTE_column df of
        None \<Rightarrow> Inl KeyError
      | Some agente \<Rightarrow>
          (case EMPRESA_column df of
             None \<Rightarrow> Inl KeyError
           | Some empresa \<Rightarrow> Inr (zip agente empresa)))"

text \<open>
  A row of \<^verbatim>\<open>temp_df\<close>: \<^verbatim>\<open>AGENTE\<close>, \<^verbatim>\<open>EMPRESA\<close>, \<^verbatim>\<open>FECHA\<close> (\<^term>\<open>None\<close> is \<^verbatim>\<open>NaT\<close>), the
  measurement and \<^verbatim>\<open>Periodo\<close>.
\<close>

type_synonym temp_row = "string option \<times> string option \<times> datetime option \<times> cell \<times> string"

definition temp_df ::
  "(string option \<times> string option) list \<Rightarrow> cell list \<Rightarrow> datetime option \<Rightarrow> string \<Rightarrow> temp_row list" where
  "temp_df ids cells fecha period =
     map (\<lambda>((a, e), v). (a, e, fecha, v, period)) (zip ids cells)"

text \<open>\<^verbatim>\<open>transformed_df[transformed_df['FECHA'].notna()]\<close>\<close>

definition notna_FECHA :: "temp_row list \<Rightarrow> long_record list" where
  "notna_FECHA rows =
     List.map_filter
       (\<lambda>(a, e, f, v, p).
          map_option (\<lambda>d. \<lparr>AGENTE = a, EMPRESA = e, FECHA = d, valor = v, Periodo = p\<rparr>) f)
       rows"

text \<open>\<^verbatim>\<open>energia.py\<close> 70-81: the loop over \<^verbatim>\<open>price_columns\<close> that fills \<^verbatim>\<open>dfs\<close>.\<close>

fun energia_dfs ::
  "(string \<rightharpoonup> datetime) \<Rightarrow> raw_table \<Rightarrow> (string \<times> cell list) list \<Rightarrow> string list
     \<Rightarrow> exception + temp_row list list" where
  "energia_dfs date_mapping df cols [] = Inr []"
| "energia_dfs date_mapping df cols (col # rest) =
     (case last_word col of
        Inl e \<Rightarrow> Inl e
      | Inr period \<Rightarrow>
          (case identity_columns df of
             Inl e \<Rightarrow> Inl e
           | Inr ids \<Rightarrow>
               (case column_cells cols col of
                  None \<Rightarrow> Inl ValueError
                | Some cells \<Rightarrow>
                    (case energia_dfs date_mapping df cols rest of
                       Inl e \<Rightarrow> Inl e
                     | Inr dfs \<Rightarrow>
                         Inr (temp_df ids cells (energia_fecha date_mapping period) period # dfs)))))"

text \<open>The label \<^verbatim>\<open>Energia MWh\<close>, with i acute (code point 237).\<close>

definition energia_label :: string where
  "energia_label = ''Energ'' @ [char_of (237::nat)] @ ''a MWh''"

text \<open>
  \<^verbatim>\<open>energia.py\<close> 50-87, the transformation; \<^verbatim>\<open>pd.concat\<close> of an empty list raises
  \<^verbatim>\<open>ValueError\<close>.
\<close>

definition energia_transform :: "raw_table \<Rightarrow> exception + long_record list" where
  "energia_transform df =
     (case strip_labels (columns df) of
        Inl e \<Rightarrow> Inl e
      | Inr cols \<Rightarrow>
          (case energia_date_mapping of
             None \<Rightarrow> Inl ValueError
           | Some date_mapping \<Rightarrow>
               (case energia_dfs date_mapping df cols (price_columns energia_label cols) of
                  Inl e \<Rightarrow> Inl e
                | Inr dfs \<Rightarrow>
                    if dfs = [] then Inl ValueError
                    else Inr (notna_FECHA (concat dfs)))))"

text \<open>\<^verbatim>\<open>energia.py\<close> 15-92, the body of \<^verbatim>\<open>try\<close>: an exception, or the value returned.\<close>

definition energia_try :: "environment \<Rightarrow> exception + long_record list option" where
  "energia_try env =
     (if \<not> base_path_exists env then Inr None
      else if \<not> file_path_exists env then Inr None
      else (case read_excel env of
              Inl e \<Rightarrow> Inl e
            | Inr df \<Rightarrow>
                if df_empty df then Inr None
                else (case energia_transform df of
                        Inl e \<Rightarrow> Inl e
                      | Inr transformed_df \<Rightarrow> Inr (Some transformed_df))))"

text \<open>\<^verbatim>\<open>energia.py\<close> 13-98: \<^verbatim>\<open>except Exception\<close> returns \<^verbatim>\<open>None\<close>.\<close>

definition energia_load_and_transform_data :: "environment \<Rightarrow> long_record list option" where
  "energia_load_and_transform_data env =
     (case energia_try env of Inl e \<Rightarrow> None | Inr result \<Rightarrow> result)"

text \<open>
  \<^verbatim>\<open>precios_peaje_distribucion.py\<close> 56-59:
  \<^verbatim>\<open>pd.to_numeric(temp_df[col].astype(str).str.replace(',', ''), errors='coerce')\<close>.
  A number is printed and read back, blank becomes the text \<^verbatim>\<open>nan\<close> and is read as
  \<^verbatim>\<open>NaN\<close>, a text loses its commas and is read by the parser of numbers, which is the
  parameter \<open>to_numeric\<close>; what it does not read becomes \<^verbatim>\<open>NaN\<close>.
\<close>

definition coerce :: "(string \<Rightarrow> real option) \<Rightarrow> cell \<Rightarrow> cell" where
  "coerce to_numeric c =
     (case c of
        Num v \<Rightarrow> Num v
      | Blank \<Rightarrow> Blank
      | Text s \<Rightarrow>
          (case to_numeric (filter (\<lambda>ch. ch \<noteq> CHR '','') s) of
             Some v \<Rightarrow> Num v
           | None \<Rightarrow> Blank))"

text \<open>
  \<^verbatim>\<open>precios_peaje_distribucion.py\<close> 30-61: the loop over \<^verbatim>\<open>price_columns\<close>. A period
  without a date skips the column before the column is read.
\<close>

fun peaje_dfs ::
  "(string \<Rightarrow> real option) \<Rightarrow> raw_table \<Rightarrow> (string \<times> cell list) list \<Rightarrow> string list
     \<Rightarrow> exception + temp_row list list" where
  "peaje_dfs to_numeric df cols [] = Inr []"
| "peaje_dfs to_numeric df cols (col # rest) =
     (case last_word col of
        Inl e \<Rightarrow> Inl e
      | Inr w \<Rightarrow>
          (case peaje_fecha (str_strip w) of
             None \<Rightarrow> peaje_dfs to_numeric df cols rest
           | Some date \<Rightarrow>
               (case identity_columns df of
                  Inl e \<Rightarrow> Inl e
                | Inr ids \<Rightarrow>
                    (case column_cells cols col of
                       None \<Rightarrow> Inl AttributeError
                     | Some cells \<Rightarrow>
                         (case peaje_dfs to_numeric df cols rest of
                            Inl e \<Rightarrow> Inl e
                          | Inr dfs \<Rightarrow>
                              Inr (temp_df ids (map (coerce to_numeric) cells) (Some date)
                                     (str_strip w) # dfs))))))"

text \<open>\<^verbatim>\<open>transformed_df.dropna(subset=['FECHA', 'Peaje generacion USD/MWh'])\<close>\<close>

definition dropna :: "temp_row list \<Rightarrow> long_record list" where
  "dropna rows =
     List.map_filter
       (\<lambda>(a, e, f, v, p).
          (case f of
             None \<Rightarrow> None
           | Some d \<Rightarrow>
               (case v of
                  Num x \<Rightarrow> Some \<lparr>AGENTE = a, EMPRESA = e, FECHA = d, valor = v, Periodo = p\<rparr>
                | _ \<Rightarrow> None)))
       rows"

text \<open>The label \<^verbatim>\<open>Peaje generacion USD/MWh\<close>, with o acute (code point 243).\<close>

definition peaje_label :: string where
  "peaje_label = ''Peaje generaci'' @ [char_of (243::nat)] @ ''n USD/MWh''"

text \<open>\<^verbatim>\<open>precios_peaje_distribucion.py\<close> 15-70, the body of \<^verbatim>\<open>try\<close>.\<close>

definition peaje_try ::
  "(string \<Rightarrow> real option) \<Rightarrow> environment \<Rightarrow> exception + long_record list option" where
  "peaje_try to_numeric env =
     (if \<not> file_path_exists env then Inr None
      else (case read_excel env of
              Inl e \<Rightarrow> Inl e
            | Inr df \<Rightarrow>
                if df_empty df then Inr None
                else (case strip_labels (columns df) of
                        Inl e \<Rightarrow> Inl e
                      | Inr cols \<Rightarrow>
                          (case peaje_dfs to_numeric df cols (price_columns peaje_label cols) of
                             Inl e \<Rightarrow> Inl e
                           | Inr dfs \<Rightarrow>
                               if dfs = [] then Inr None
                               else Inr (Some (dropna (concat dfs)))))))"

text \<open>\<^verbatim>\<open>precios_peaje_distribucion.py\<close> 12-74.\<close>

definition peaje_load_and_transform_data ::
  "(string \<Rightarrow> real option) \<Rightarrow> environment \<Rightarrow> long_record list option" where
  "peaje_load_and_transform_data to_numeric env =
     (case peaje_try to_numeric env of Inl e \<Rightarrow> None | Inr result \<Rightarrow> result)"

text \<open>
  \<^verbatim>\<open>df = load_and_transform_data()\<close>, \<^verbatim>\<open>if df is None: st.stop()\<close> (\<^verbatim>\<open>energia.py\<close> 101-103,
  \<^verbatim>\<open>precios_peaje_distribucion.py\<close> 77-79): the page stops, or goes on with the table.
\<close>

datatype page = Stopped | Continues "long_record list"

definition energia_page :: "environment \<Rightarrow> page" where
  "energia_page env =
     (case energia_load_and_transform_data env of None \<Rightarrow> Stopped | Some df \<Rightarrow> Continues df)"

definition peaje_page :: "(string \<Rightarrow> real option) \<Rightarrow> environment \<Rightarrow> page" where
  "peaje_page to_numeric env =
     (case peaje_load_and_transform_data to_numeric env of
        None \<Rightarrow> Stopped
      | Some df \<Rightarrow> Continues df)"

text \<open>
  Environments in which a loader has no table to return: no data directory; a file that
  \<^verbatim>\<open>pd.read_excel\<close> cannot read; a sheet with a header and no row; a sheet with one row
  and one measurement column of each page but no \<^verbatim>\<open>AGENTE\<close> column, where
  \<^verbatim>\<open>df[['AGENTE', 'EMPRESA', col]]\<close> raises \<^verbatim>\<open>KeyError\<close>.
\<close>

definition no_directory :: environment where
  "no_directory = \<lparr>base_path_exists = False, file_path_exists = False, read_excel = Inl OSError\<rparr>"

definition unreadable_file :: environment where
  "unreadable_file = \<lparr>base_path_exists = True, file_path_exists = True, read_excel = Inl ValueError\<rparr>"

definition header_only :: environment where
  "header_only = \<lparr>base_path_exists = True, file_path_exists = True,
     read_excel = Inr \<lparr>n_rows = 0, AGENTE_column = Some [], EMPRESA_column = Some [],
       columns = [(Str (energia_label @ '' 012023''), [])]\<rparr>\<rparr>"

definition no_AGENTE :: environment where
  "no_AGENTE = \<lparr>base_path_exists = True, file_path_exists = True,
     read_excel = Inr \<lparr>n_rows = 1, AGENTE_column = None, EMPRESA_column = Some [Some ''A''],
       columns = [(Str (energia_label @ '' 012023''), [Num 1]),
                  (Str (peaje_label @ '' 012023''), [Num 2])]\<rparr>\<rparr>"

text \<open>Whether the period of a selected column has a date, in each of the two loaders.\<close>

definition energia_period_parsed :: "(string \<rightharpoonup> datetime) \<Rightarrow> string \<Rightarrow> bool" where
  "energia_period_parsed date_mapping col =
     (case last_word col of
        Inl e \<Rightarrow> False
      | Inr period \<Rightarrow> energia_fecha date_mapping period \<noteq> None)"

definition peaje_period_parsed :: "string \<Rightarrow> bool" where
  "peaje_period_parsed col =
     (case last_word col of
        Inl e \<Rightarrow> False
      | Inr w \<Rightarrow> peaje_fecha (str_strip w) \<noteq> None)"

text \<open>
  A sheet of two rows with one energy column (\<^verbatim>\<open>012023\<close>) and two toll columns
  (\<^verbatim>\<open>012023\<close> with a blank cell, and \<^verbatim>\<open>132023\<close>), and its columns once the labels are
  stripped.
\<close>

definition two_agents :: raw_table where
  "two_agents = \<lparr>n_rows = 2, AGENTE_column = Some [Some ''X'', Some ''Y''],
     EMPRESA_column = Some [Some ''A'', Some ''A''],
     columns = [(Str (energia_label @ '' 012023''), [Num 100, Num 200]),
                (Str (peaje_label @ '' 012023 ''), [Num 3, Blank]),
                (Str (peaje_label @ '' 132023''), [Num 1, Num 2])]\<rparr>"

definition two_agents_file :: environment where
  "two_agents_file = \<lparr>base_path_exists = True, file_path_exists = True,
     read_excel = Inr two_agents\<rparr>"

definition two_agents_columns :: "(string \<times> cell list) list" where
  "two_agents_columns =
     [(energia_label @ '' 012023'', [Num 100, Num 200]),
      (peaje_label @ '' 012023'', [Num 3, Blank]),
      (peaje_label @ '' 132023'', [Num 1, Num 2])]"

section \<open>The dictionary of periods\<close>

lemma date_mapping_loop_unfold:
  "date_mapping_loop key e c dm =
     (if c \<le> e then
        (case next_month c of None \<Rightarrow> None
         | Some n \<Rightarrow> date_mapping_loop key e n (dm(key c \<mapsto> first_day c)))
      else Some dm)"
  by (rule date_mapping_loop.simps)

lemma next_month_first:
  assumes "first_of_month c" "next_month c = Some n"
  shows "first_of_month n" and "c < n" and "\<And>t. first_of_month t \<Longrightarrow> c < t \<Longrightarrow> n \<le> t"
    and "first_day c = c"
proof -
  obtain y m d us where c: "c = (y, m, d, us)" by (cases c)
  from assms c show "first_of_month n"
    by (auto simp: first_of_month_def next_month_def dt_replace_def year_def month_def split: if_splits)
  from assms c show "c < n"
    by (auto simp: first_of_month_def next_month_def dt_replace_def year_def month_def less_prod_def less_eq_prod_def split: if_splits)
  from assms c show "first_day c = c"
    by (auto simp: first_of_month_def first_day_def year_def month_def)
  fix t assume t: "first_of_month t" "c < t"
  obtain y' m' d' us' where t': "t = (y', m', d', us')" by (cases t)
  from assms c t t' show "n \<le> t"
    by (auto simp: first_of_month_def next_month_def dt_replace_def year_def month_def less_prod_def less_eq_prod_def split: if_splits)
qed

lemma next_month_Some:
  assumes "first_of_month c" "year c < 9999"
  shows "\<exists>n. next_month c = Some n"
proof -
  obtain y m d us where c: "c = (y, m, d, us)" by (cases c)
  with assms have "1 \<le> y" "y < 9999" "1 \<le> m" "m \<le> 12"
    by (simp_all add: first_of_month_def year_def)
  then show ?thesis
    by (simp add: c next_month_def dt_replace_def year_def month_def)
qed

lemma year_mono: "c \<le> e \<Longrightarrow> year c \<le> year (e::datetime)"
  by (cases c, cases e) (auto simp: less_eq_prod_def year_def)

lemma date_mapping_loop_other:
  "date_mapping_loop key e c dm = Some dm' \<Longrightarrow> first_of_month c \<Longrightarrow>
   (\<And>t. first_of_month t \<Longrightarrow> c \<le> t \<Longrightarrow> t \<le> e \<Longrightarrow> key t \<noteq> tok) \<Longrightarrow> dm' tok = dm tok"
proof (induction key e c dm arbitrary: dm' rule: date_mapping_loop.induct)
  case (1 key e c dm)
  show ?case
  proof (cases "c \<le> e")
    case False
    with "1.prems"(1) show ?thesis by (simp add: date_mapping_loop_unfold[of key e c dm])
  next
    case True
    with "1.prems"(1) obtain n where n: "next_month c = Some n"
      and rec: "date_mapping_loop key e n (dm(key c \<mapsto> first_day c)) = Some dm'"
      by (auto simp: date_mapping_loop_unfold[of key e c dm] split: option.splits)
    note nm = next_month_first[OF "1.prems"(2) n]
    have "dm' tok = (dm(key c \<mapsto> first_day c)) tok"
    proof (rule "1.IH"[OF True n rec nm(1)])
      fix t assume "first_of_month t" "n \<le> t" "t \<le> e"
      with nm(2) show "key t \<noteq> tok" using "1.prems"(3)[of t] by auto
    qed
    moreover have "key c \<noteq> tok" using "1.prems"(3)[of c] "1.prems"(2) True by simp
    ultimately show ?thesis by simp
  qed
qed

lemma date_mapping_loop_hit:
  "date_mapping_loop key e c dm = Some dm' \<Longrightarrow> first_of_month c \<Longrightarrow>
   (\<And>s t. first_of_month s \<Longrightarrow> first_of_month t \<Longrightarrow> c \<le> s \<Longrightarrow> s \<le> e \<Longrightarrow> c \<le> t \<Longrightarrow> t \<le> e
       \<Longrightarrow> key s = key t \<Longrightarrow> s = t) \<Longrightarrow>
   first_of_month t \<Longrightarrow> c \<le> t \<Longrightarrow> t \<le> e \<Longrightarrow> dm' (key t) = Some t"
proof (induction key e c dm arbitrary: dm' rule: date_mapping_loop.induct)
  case (1 key e c dm)
  from "1.prems"(5,6) have True: "c \<le> e" by simp
  with "1.prems"(1) obtain n where n: "next_month c = Some n"
    and rec: "date_mapping_loop key e n (dm(key c \<mapsto> first_day c)) = Some dm'"
    by (auto simp: date_mapping_loop_unfold[of key e c dm] split: option.splits)
  note nm = next_month_first[OF "1.prems"(2) n]
  show ?case
  proof (cases "t = c")
    case True
    have "dm' (key c) = (dm(key c \<mapsto> first_day c)) (key c)"
    proof (rule date_mapping_loop_other[OF rec nm(1)])
      fix s assume s: "first_of_month s" "n \<le> s" "s \<le> e"
      show "key s \<noteq> key c"
      proof
        assume "key s = key c"
        with "1.prems"(3)[of s c] s nm(2) "1.prems"(2) \<open>c \<le> e\<close> have "s = c" by auto
        with s(2) nm(2) show False by simp
      qed
    qed
    with True nm(4) show ?thesis by simp
  next
    case False
    with "1.prems"(5) have "c < t" by simp
    with nm(3) "1.prems"(4) have "n \<le> t" by simp
    show ?thesis
    proof (rule "1.IH"[OF \<open>c \<le> e\<close> n rec nm(1) _ "1.prems"(4) \<open>n \<le> t\<close> "1.prems"(6)])
      fix s s' assume "first_of_month s" "first_of_month s'" "n \<le> s" "s \<le> e" "n \<le> s'" "s' \<le> e" "key s = key s'"
      with nm(2) show "s = s'" using "1.prems"(3)[of s s'] by auto
    qed
  qed
qed

lemma date_mapping_loop_total:
  "first_of_month c \<Longrightarrow> year e < 9999 \<Longrightarrow> \<exists>dm'. date_mapping_loop key e c dm = Some dm'"
proof (induction key e c dm rule: date_mapping_loop.induct)
  case (1 key e c dm)
  show ?case
  proof (cases "c \<le> e")
    case False
    then show ?thesis by (simp add: date_mapping_loop_unfold[of key e c dm])
  next
    case True
    with year_mono[OF True] "1.prems"(2) have "year c < 9999" by simp
    from next_month_Some[OF "1.prems"(1) this] obtain n where n: "next_month c = Some n" ..
    note nm = next_month_first[OF "1.prems"(1) n]
      from "1.IH"[OF True n nm(1) "1.prems"(2)]
    obtain dm' where "date_mapping_loop key e n (dm(key c \<mapsto> first_day c)) = Some dm'" ..
    then have "date_mapping_loop key e c dm = Some dm'"
      by (subst date_mapping_loop_unfold) (simp only: True n if_True option.case)
    then show ?thesis by blast
  qed
qed

lemma date_mapping_loop_lookup:
  assumes "first_of_month c" "year e < 9999"
    and inj: "\<And>s t. first_of_month s \<Longrightarrow> first_of_month t \<Longrightarrow> c \<le> s \<Longrightarrow> s \<le> e \<Longrightarrow> c \<le> t \<Longrightarrow> t \<le> e
       \<Longrightarrow> key s = key t \<Longrightarrow> s = t"
  shows "\<exists>dm'. date_mapping_loop key e c Map.empty = Some dm' \<and>
     (\<forall>tok d. dm' tok = Some d \<longleftrightarrow> first_of_month d \<and> c \<le> d \<and> d \<le> e \<and> key d = tok)"
proof -
  from date_mapping_loop_total[OF assms(1,2)]
  obtain dm' where dm': "date_mapping_loop key e c Map.empty = Some dm'"
    by blast
  have "dm' tok = Some d \<longleftrightarrow> first_of_month d \<and> c \<le> d \<and> d \<le> e \<and> key d = tok" for tok d
  proof
    assume R: "first_of_month d \<and> c \<le> d \<and> d \<le> e \<and> key d = tok"
    then have "dm' (key d) = Some d"
      using date_mapping_loop_hit[OF dm' assms(1) inj, of d] by blast
    with R show "dm' tok = Some d" by simp
  next
    assume L: "dm' tok = Some d"
    show "first_of_month d \<and> c \<le> d \<and> d \<le> e \<and> key d = tok"
    proof (cases "\<exists>t. first_of_month t \<and> c \<le> t \<and> t \<le> e \<and> key t = tok")
      case True
      then obtain t where t: "first_of_month t" "c \<le> t" "t \<le> e" "key t = tok" by blast
      have "dm' (key t) = Some t"
        using date_mapping_loop_hit[OF dm' assms(1) inj t(1,2,3)] by blast
      with L t(4) have "d = t" by simp
      with t show ?thesis by simp
    next
      case False
      then have "\<And>t. first_of_month t \<Longrightarrow> c \<le> t \<Longrightarrow> t \<le> e \<Longrightarrow> key t \<noteq> tok" by blast
      from date_mapping_loop_other[OF dm' assms(1) this] have "dm' tok = None" by simp
      with L show ?thesis by simp
    qed
  qed
  with dm' show ?thesis by blast
qed

section \<open>Decimal digits\<close>

lemma of_char_digit_char: "d < 10 \<Longrightarrow> (of_char (digit_char d) :: nat) = 48 + d"
  by (simp add: digit_char_def)

lemma digit_char_inj: "d < 10 \<Longrightarrow> d' < 10 \<Longrightarrow> digit_char d = digit_char d' \<Longrightarrow> d = d'"
proof -
  assume d: "d < 10" and d': "d' < 10" and eq: "digit_char d = digit_char d'"
  from eq have "(of_char (digit_char d) :: nat) = of_char (digit_char d')" by (rule arg_cong)
  then show "d = d'" by (simp only: of_char_digit_char[OF d] of_char_digit_char[OF d'] add_left_cancel)
qed

lemma isdigit_digit_char: "d < 10 \<Longrightarrow> isdigit (digit_char d)"
  by (simp add: isdigit_def of_char_digit_char)

lemma digit_value_digit_char: "d < 10 \<Longrightarrow> digit_value (digit_char d) = d"
  by (simp add: digit_value_def of_char_digit_char)

lemma not_int_isspace_digit_char: "d < 10 \<Longrightarrow> \<not> int_isspace (digit_char d)"
  by (simp add: int_isspace_def of_char_digit_char Let_def)

lemma digit_char_not_sign: "d < 10 \<Longrightarrow> digit_char d \<noteq> CHR ''+'' \<and> digit_char d \<noteq> CHR ''-''"
proof -
  assume d: "d < 10"
  have "(of_char (digit_char d) :: nat) \<noteq> of_char (CHR ''+'')"
    and "(of_char (digit_char d) :: nat) \<noteq> of_char (CHR ''-'')"
    by (simp_all add: of_char_digit_char[OF d])
  then show ?thesis by metis
qed

lemma decimal2: "(n::nat) < 100 \<Longrightarrow> 10 * (n div 10 mod 10) + n mod 10 = n"
  by simp

lemma decimal4:
  assumes "(n::nat) < 10000"
  shows "10 * (10 * (10 * (n div 1000 mod 10) + n div 100 mod 10) + n div 10 mod 10) + n mod 10 = n"
proof -
  have a: "n div 1000 mod 10 = n div 1000" using assms by simp
  have "n div 1000 = n div 100 div 10" by (simp add: div_mult2_eq[symmetric])
  then have b: "10 * (n div 1000) + n div 100 mod 10 = n div 100" by simp
  have "n div 100 = n div 10 div 10" by (simp add: div_mult2_eq[symmetric])
  then have c: "10 * (n div 100) + n div 10 mod 10 = n div 10" by simp
  show ?thesis by (simp only: a b c mult_div_mod_eq)
qed

lemma int_strip_no_space:
  assumes "\<not> int_isspace c" "\<not> int_isspace (last (c # cs))"
  shows "int_strip (c # cs) = c # cs"
proof -
  have "rev (c # cs) \<noteq> []" by simp
  then obtain x xs where r: "rev (c # cs) = x # xs" by (cases "rev (c # cs)") auto
  then have "x = last (c # cs)" by (metis hd_rev list.sel(1))
  with assms(2) r have "dropWhile int_isspace (rev (c # cs)) = rev (c # cs)" by simp
  moreover have "dropWhile int_isspace (c # cs) = c # cs" using assms(1) by simp
  ultimately show ?thesis by (simp add: int_strip_def del: rev.simps)
qed

lemma py_int_digit: "a < 10 \<Longrightarrow> py_int [digit_char a] = Some (int a)"
  by (simp add: py_int_def int_strip_no_space not_int_isspace_digit_char digit_char_not_sign
      int_unsigned_def isdigit_digit_char digit_value_digit_char)

lemma py_int_digits2: "n < 100 \<Longrightarrow> py_int (digits2 n) = Some (int n)"
  by (simp add: digits2_def py_int_def int_strip_no_space not_int_isspace_digit_char
      digit_char_not_sign int_unsigned_def isdigit_digit_char digit_value_digit_char)

lemma py_int_digits4: "n < 10000 \<Longrightarrow> py_int (digits4 n) = Some (int n)"
proof -
  assume n: "n < 10000"
  have "py_int (digits4 n) = Some (int (10 * (10 * (10 * (n div 1000 mod 10) + n div 100 mod 10) + n div 10 mod 10) + n mod 10))"
    by (simp add: digits4_def py_int_def int_strip_no_space not_int_isspace_digit_char
      digit_char_not_sign int_unsigned_def isdigit_digit_char digit_value_digit_char)
  then show ?thesis by (simp only: decimal4[OF n])
qed

lemma digits2_inj: "m < 100 \<Longrightarrow> m' < 100 \<Longrightarrow> digits2 m = digits2 m' \<Longrightarrow> m = m'"
proof -
  assume a: "m < 100" and b: "m' < 100" and eq: "digits2 m = digits2 m'"
  from arg_cong[OF eq, of py_int] have "Some (int m) = Some (int m')"
    unfolding py_int_digits2[OF a] py_int_digits2[OF b] .
  then show "m = m'" by simp
qed

lemma digits4_inj: "y < 10000 \<Longrightarrow> y' < 10000 \<Longrightarrow> digits4 y = digits4 y' \<Longrightarrow> y = y'"
proof -
  assume a: "y < 10000" and b: "y' < 10000" and eq: "digits4 y = digits4 y'"
  from arg_cong[OF eq, of py_int] have "Some (int y) = Some (int y')"
    unfolding py_int_digits4[OF a] py_int_digits4[OF b] .
  then show "y = y'" by simp
qed

lemma length_digits [simp]: "length (digits2 n) = 2" "length (digits4 n) = 4"
  by (simp_all add: digits2_def digits4_def)


section \<open>Properties of the period parser\<close>

lemma first_of_month_iff:
  "first_of_month d \<longleftrightarrow> (\<exists>y m. d = (y, m, 1, 0) \<and> 1 \<le> y \<and> y \<le> 9999 \<and> 1 \<le> m \<and> m \<le> 12)"
  by (cases d) (auto simp: first_of_month_def)

lemma energia_date_mapping_lookup:
  "\<exists>dm. energia_date_mapping = Some dm \<and>
     (\<forall>tok d. energia_fecha dm tok = Some d \<longleftrightarrow>
        (\<exists>y m. 2023 \<le> y \<and> y \<le> 2025 \<and> 1 \<le> m \<and> m \<le> 12
           \<and> tok = digits2 m @ digits4 y \<and> d = (y, m, 1, 0)))"
proof -
  let ?key = "\<lambda>t. strftime_m t @ strftime_Y t"
  let ?c = "(2023, 1, 1, 0) :: datetime" and ?e = "(2025, 12, 1, 0) :: datetime"
  have inj: "s = t" if "first_of_month s" "first_of_month t" "?key s = ?key t" for s t
  proof -
    from that(1) obtain ys ms where s: "s = (ys, ms, 1, 0)" "ys \<le> 9999" "ms \<le> 12"
      by (auto simp: first_of_month_iff)
    from that(2) obtain yt mt where t: "t = (yt, mt, 1, 0)" "yt \<le> 9999" "mt \<le> 12"
      by (auto simp: first_of_month_iff)
    from that(3) s t have "digits2 ms = digits2 mt" "digits4 ys = digits4 yt"
      by (simp_all add: strftime_m_def strftime_Y_def year_def month_def)
    with s t have "ms = mt" "ys = yt"
      by (auto intro: digits2_inj digits4_inj)
    with s t show ?thesis by simp
  qed
  have "first_of_month ?c" by (simp add: first_of_month_def)
  moreover have "year ?e < 9999" by (simp add: year_def)
  ultimately obtain dm where dm: "date_mapping_loop ?key ?e ?c Map.empty = Some dm"
    and look: "\<And>tok d. dm tok = Some d \<longleftrightarrow> first_of_month d \<and> ?c \<le> d \<and> d \<le> ?e \<and> ?key d = tok"
    using date_mapping_loop_lookup[of ?c ?e ?key] inj by blast
  have "energia_fecha dm tok = Some d \<longleftrightarrow>
        (\<exists>y m. 2023 \<le> y \<and> y \<le> 2025 \<and> 1 \<le> m \<and> m \<le> 12
           \<and> tok = digits2 m @ digits4 y \<and> d = (y, m, 1, 0))" for tok d
  proof -
    have "energia_fecha dm tok = Some d \<longleftrightarrow> first_of_month d \<and> ?c \<le> d \<and> d \<le> ?e \<and> ?key d = tok"
      by (simp add: energia_fecha_def look)
    also have "\<dots> \<longleftrightarrow> (\<exists>y m. 2023 \<le> y \<and> y \<le> 2025 \<and> 1 \<le> m \<and> m \<le> 12
           \<and> tok = digits2 m @ digits4 y \<and> d = (y, m, 1, 0))"
      by (cases d)
        (auto simp: first_of_month_def less_eq_prod_def strftime_m_def strftime_Y_def year_def month_def)
    finally show ?thesis .
  qed
  with dm show ?thesis by (simp add: energia_date_mapping_def)
qed

lemma str_lower_digit_char: "d < 10 \<Longrightarrow> str_lower [digit_char d] = [digit_char d]"
  by (simp add: str_lower_def of_char_digit_char)

lemma str_lower_append: "str_lower (a @ b) = str_lower a @ str_lower b"
  by (simp add: str_lower_def)

lemma str_lower_digits2: "str_lower (digits2 n) = digits2 n"
  using str_lower_digit_char[of "n div 10 mod 10"] str_lower_digit_char[of "n mod 10"]
  by (simp add: digits2_def str_lower_def)

lemma mod100_window:
  fixes ys yt :: nat
  assumes "2023 \<le> ys" "ys \<le> 2122" "2023 \<le> yt" "yt \<le> 2122" "ys mod 100 = yt mod 100"
  shows "ys = yt"
proof -
  have r: "n mod 100 = (if n < 2100 then n - 2000 else n - 2100)" if "2023 \<le> n" "n \<le> 2122" for n :: nat
  proof -
    from that have "n = 20 * 100 + (n - 2000) \<or> n = 21 * 100 + (n - 2100) \<and> 2100 \<le> n" by linarith
    then show ?thesis
    proof
      assume a: "n = 20 * 100 + (n - 2000)"
      show ?thesis
      proof (cases "n < 2100")
        case True
        then have "n - 2000 < 100" by simp
        then have "(20 * 100 + (n - 2000)) mod 100 = n - 2000" by (simp only: mod_mult_self3 mod_less)
        with a True show ?thesis by simp
      next
        case False
        with that have "n - 2100 < 100" "n = 21 * 100 + (n - 2100)" by simp_all
        then have "n mod 100 = n - 2100" by (metis mod_mult_self3 mod_less)
        with False show ?thesis by simp
      qed
    next
      assume a: "n = 21 * 100 + (n - 2100) \<and> 2100 \<le> n"
      with that have "n - 2100 < 100" by simp
      with a have "n mod 100 = n - 2100" by (metis mod_mult_self3 mod_less)
      with a show ?thesis by simp
    qed
  qed
  from assms(5) r[OF assms(1,2)] r[OF assms(3,4)] assms(1-4) show ?thesis
    by (auto split: if_splits)
qed

lemma precio_potencia_date_mapping_lookup:
  assumes "year today \<le> 2122"
  shows "\<exists>dm. precio_potencia_date_mapping today = Some dm \<and>
     (\<forall>tok d. precio_potencia_fecha dm tok = Some d \<longleftrightarrow>
        (\<exists>y m. 1 \<le> m \<and> m \<le> 12 \<and> d = (y, m, 1, 0) \<and> (2023, 1, 1, 0) \<le> d \<and> d \<le> today
           \<and> tok = digits2 m @ digits2 (y mod 100)))"
proof -
  let ?key = "\<lambda>t. str_lower (strftime_m t @ strftime_y t)"
  let ?c = "(2023, 1, 1, 0) :: datetime"
  have key: "?key t = digits2 (month t) @ digits2 (year t mod 100)" for t
    by (simp add: str_lower_append str_lower_digits2 strftime_m_def strftime_y_def)
  have inj: "s = t" if "first_of_month s" "first_of_month t" "?c \<le> s" "s \<le> today"
    "?c \<le> t" "t \<le> today" "?key s = ?key t" for s t
  proof -
    from that(1) obtain ys ms where s: "s = (ys, ms, 1, 0)" "ms \<le> 12"
      by (auto simp: first_of_month_iff)
    from that(2) obtain yt mt where t: "t = (yt, mt, 1, 0)" "mt \<le> 12"
      by (auto simp: first_of_month_iff)
    from year_mono[OF that(3)] year_mono[OF that(4)] assms s
    have ys: "2023 \<le> ys" "ys \<le> 2122" by (simp_all add: year_def)
    from year_mono[OF that(5)] year_mono[OF that(6)] assms t
    have yt: "2023 \<le> yt" "yt \<le> 2122" by (simp_all add: year_def)
    from that(7) s t have "digits2 ms = digits2 mt" "digits2 (ys mod 100) = digits2 (yt mod 100)"
      by (simp_all add: key year_def month_def)
    with s t have "ms = mt" "ys mod 100 = yt mod 100"
      by (auto intro: digits2_inj)
    with ys yt have "ms = mt" "ys = yt" by (auto intro: mod100_window)
    with s t show ?thesis by simp
  qed
  have "first_of_month ?c" by (simp add: first_of_month_def)
  moreover have "year today < 9999" using assms by simp
  ultimately obtain dm where dm: "date_mapping_loop ?key today ?c Map.empty = Some dm"
    and look: "\<And>tok d. dm tok = Some d \<longleftrightarrow> first_of_month d \<and> ?c \<le> d \<and> d \<le> today \<and> ?key d = tok"
    using date_mapping_loop_lookup[of ?c today ?key] inj by blast
  have "precio_potencia_fecha dm tok = Some d \<longleftrightarrow>
        (\<exists>y m. 1 \<le> m \<and> m \<le> 12 \<and> d = (y, m, 1, 0) \<and> (2023, 1, 1, 0) \<le> d \<and> d \<le> today
           \<and> tok = digits2 m @ digits2 (y mod 100))" for tok d
  proof
    assume "precio_potencia_fecha dm tok = Some d"
    then have d: "first_of_month d" "?c \<le> d" "d \<le> today" "?key d = tok"
      by (simp_all add: precio_potencia_fecha_def look)
    from d(1) obtain y m where ym: "d = (y, m, 1, 0)" "1 \<le> m" "m \<le> 12"
      by (auto simp: first_of_month_iff)
    with d show "\<exists>y m. 1 \<le> m \<and> m \<le> 12 \<and> d = (y, m, 1, 0) \<and> (2023, 1, 1, 0) \<le> d \<and> d \<le> today
           \<and> tok = digits2 m @ digits2 (y mod 100)"
      by (auto simp: key year_def month_def)
  next
    assume "\<exists>y m. 1 \<le> m \<and> m \<le> 12 \<and> d = (y, m, 1, 0) \<and> (2023, 1, 1, 0) \<le> d \<and> d \<le> today
           \<and> tok = digits2 m @ digits2 (y mod 100)"
    then obtain y m where ym: "1 \<le> m" "m \<le> 12" "?c \<le> d" "d \<le> today"
      "tok = digits2 m @ digits2 (y mod 100)" "d = (y, m, 1, 0)" by auto
    from year_mono[OF ym(3)] year_mono[OF ym(4)] assms ym(6) have "2023 \<le> y" "y \<le> 2122"
      by (simp_all add: year_def)
    with ym have "first_of_month d" by (simp add: first_of_month_def)
    moreover have "?key d = tok" using ym by (simp add: key year_def month_def)
    ultimately show "precio_potencia_fecha dm tok = Some d"
      using ym(3,4) by (simp add: precio_potencia_fecha_def look)
  qed
  with dm show ?thesis by (simp add: precio_potencia_date_mapping_def)
qed

lemma datetime_of_nat:
  "datetime (int y) (int m) = (if 1 \<le> y \<and> y \<le> 9999 \<and> 1 \<le> m \<and> m \<le> 12 then Some (y, m, 1, 0) else None)"
  by (simp add: datetime_def)

lemma peaje_fecha_5:
  assumes "m < 10" "y < 10000"
  shows "peaje_fecha (digit_char m # digits4 y) = (if 1 \<le> m \<and> 1 \<le> y then Some (y, m, 1, 0) else None)"
proof -
  have "peaje_fecha (digit_char m # digits4 y) = datetime (int y) (int m)"
    by (simp add: peaje_fecha_def py_int_digit[OF assms(1)] py_int_digits4[OF assms(2)])
  with assms show ?thesis by (simp add: datetime_of_nat)
qed

lemma peaje_fecha_6:
  assumes "m < 100" "y < 10000"
  shows "peaje_fecha (digits2 m @ digits4 y)
    = (if 1 \<le> m \<and> m \<le> 12 \<and> 1 \<le> y then Some (y, m, 1, 0) else None)"
proof -
  have "peaje_fecha (digits2 m @ digits4 y) = datetime (int y) (int m)"
    by (simp add: peaje_fecha_def py_int_digits2[OF assms(1)] py_int_digits4[OF assms(2)])
  with assms show ?thesis by (simp add: datetime_of_nat)
qed

lemma peaje_fecha_other_length:
  "length period_code \<noteq> 5 \<Longrightarrow> length period_code \<noteq> 6 \<Longrightarrow> peaje_fecha period_code = None"
  by (simp add: peaje_fecha_def)

lemma peaje_fecha_first_of_month: "peaje_fecha period_code = Some d \<Longrightarrow> first_of_month d"
  by (auto simp: peaje_fecha_def datetime_def first_of_month_def split: if_splits option.splits)


lemma int_digits_chars:
  "int_digits acc s = Some n \<Longrightarrow> c \<in> set s \<Longrightarrow> isdigit c \<or> c = CHR ''_''"
proof (induction acc s rule: int_digits.induct)
  case (1 acc)
  then show ?case by simp
next
  case (2 acc x xs)
  show ?case
  proof (cases "isdigit x")
    case True
    with 2 show ?thesis by auto
  next
    case False
    with 2 show ?thesis by (auto split: if_splits list.splits)
  qed
qed

lemma int_unsigned_chars:
  "int_unsigned s = Some n \<Longrightarrow> c \<in> set s \<Longrightarrow> isdigit c \<or> c = CHR ''_''"
  by (auto simp: int_unsigned_def split: list.splits if_splits dest: int_digits_chars)

lemma int_strip_chars: "c \<in> set s \<Longrightarrow> c \<in> set (int_strip s) \<or> int_isspace c"
proof -
  assume c: "c \<in> set s"
  have "set s = set (takeWhile int_isspace s) \<union> set (dropWhile int_isspace s)"
    by (metis set_append takeWhile_dropWhile_id)
  moreover have "set (dropWhile int_isspace s) = set (rev (dropWhile int_isspace s))" by simp
  moreover have "set (rev (dropWhile int_isspace s))
      = set (takeWhile int_isspace (rev (dropWhile int_isspace s)))
        \<union> set (dropWhile int_isspace (rev (dropWhile int_isspace s)))"
    by (metis set_append takeWhile_dropWhile_id)
  ultimately have "c \<in> set (takeWhile int_isspace s)
      \<or> c \<in> set (takeWhile int_isspace (rev (dropWhile int_isspace s)))
      \<or> c \<in> set (dropWhile int_isspace (rev (dropWhile int_isspace s)))"
    using c by blast
  then show ?thesis
    by (auto simp: int_strip_def dest: set_takeWhileD)
qed

lemma minus_not_numeric:
  "\<not> isdigit (CHR ''-'') \<and> CHR ''-'' \<noteq> CHR ''_'' \<and> \<not> int_isspace (CHR ''-'')"
  by (simp add: isdigit_def int_isspace_def)

lemma py_int_chars:
  assumes "py_int s = Some v" "c \<in> set s"
  shows "isdigit c \<or> c = CHR ''_'' \<or> c = CHR ''+'' \<or> c = CHR ''-'' \<or> int_isspace c"
proof (cases "c \<in> set (int_strip s)")
  case False
  with int_strip_chars[OF assms(2)] show ?thesis by simp
next
  case True
  then obtain x xs where x: "int_strip s = x # xs" by (cases "int_strip s") auto
  with True have "c = x \<or> c \<in> set xs" by simp
  then show ?thesis
  proof
    assume "c = x"
    with assms(1) x show ?thesis
      by (auto simp: py_int_def split: if_splits dest: int_unsigned_chars)
  next
    assume "c \<in> set xs"
    with assms(1) x show ?thesis
      by (auto simp: py_int_def split: if_splits dest: int_unsigned_chars)
  qed
qed

lemma py_int_minus:
  assumes "py_int s = Some v" "CHR ''-'' \<in> set s"
  shows "v \<le> 0"
proof -
  from int_strip_chars[OF assms(2)] minus_not_numeric
  have "CHR ''-'' \<in> set (int_strip s)" by blast
  then obtain x xs where x: "int_strip s = x # xs" by (cases "int_strip s") auto
  show ?thesis
  proof (cases "x = CHR ''-''")
    case True
    with assms(1) x show ?thesis by (auto simp: py_int_def)
  next
    case False
    with \<open>CHR ''-'' \<in> set (int_strip s)\<close> x have m: "CHR ''-'' \<in> set xs" by simp
    show ?thesis
    proof (cases "x = CHR ''+''")
      case True
      with assms(1) x obtain n where "int_unsigned xs = Some n" by (auto simp: py_int_def)
      from int_unsigned_chars[OF this m] minus_not_numeric show ?thesis by simp
    next
      case plus: False
      with False assms(1) x obtain n where "int_unsigned (x # xs) = Some n"
        by (auto simp: py_int_def)
      from int_unsigned_chars[OF this, of "CHR ''-''"] m minus_not_numeric show ?thesis by simp
    qed
  qed
qed

lemma datetime_positive: "datetime y m = Some d \<Longrightarrow> 1 \<le> y \<and> 1 \<le> m"
  by (auto simp: datetime_def split: if_splits)

lemma peaje_fecha_parts:
  assumes "peaje_fecha period_code = Some d"
  shows "\<exists>ms ys m y. period_code = ms @ ys \<and> py_int ms = Some m \<and> py_int ys = Some y
           \<and> datetime y m = Some d"
proof (cases "length period_code = 5")
  case True
  then have "period_code = take 1 period_code @ take 4 (drop 1 period_code)" by simp
  moreover from assms True obtain m y where "py_int (take 1 period_code) = Some m"
      "py_int (take 4 (drop 1 period_code)) = Some y" "datetime y m = Some d"
    by (auto simp: peaje_fecha_def split: option.splits)
  ultimately show ?thesis by blast
next
  case False
  with assms have 6: "length period_code = 6"
    by (auto simp: peaje_fecha_def split: if_splits)
  then have "period_code = take 2 period_code @ take 4 (drop 2 period_code)" by simp
  moreover from assms False 6 obtain m y where "py_int (take 2 period_code) = Some m"
      "py_int (take 4 (drop 2 period_code)) = Some y" "datetime y m = Some d"
    by (auto simp: peaje_fecha_def split: option.splits)
  ultimately show ?thesis by blast
qed

lemma peaje_fecha_chars:
  assumes "peaje_fecha period_code = Some d" "c \<in> set period_code"
  shows "isdigit c \<or> c = CHR ''_'' \<or> c = CHR ''+'' \<or> int_isspace c"
proof -
  from peaje_fecha_parts[OF assms(1)] obtain ms ys m y where
    p: "period_code = ms @ ys" and m: "py_int ms = Some m" and y: "py_int ys = Some y"
    and d: "datetime y m = Some d" by blast
  from datetime_positive[OF d] have pos: "1 \<le> y" "1 \<le> m" by simp_all
  have nm: "CHR ''-'' \<notin> set ms" using py_int_minus[OF m] pos by auto
  have ny: "CHR ''-'' \<notin> set ys" using py_int_minus[OF y] pos by auto
  from assms(2) p have "c \<in> set ms \<or> c \<in> set ys" by simp
  then show ?thesis
  proof
    assume c: "c \<in> set ms"
    with nm have "c \<noteq> CHR ''-''" by blast
    with py_int_chars[OF m c] show ?thesis by blast
  next
    assume c: "c \<in> set ys"
    with ny have "c \<noteq> CHR ''-''" by blast
    with py_int_chars[OF y c] show ?thesis by blast
  qed
qed

lemma peaje_fecha_non_numeric:
  "\<exists>c \<in> set period_code. \<not> isdigit c \<and> c \<noteq> CHR ''_'' \<and> c \<noteq> CHR ''+'' \<and> \<not> int_isspace c
    \<Longrightarrow> peaje_fecha period_code = None"
  by (cases "peaje_fecha period_code") (auto dest: peaje_fecha_chars)

text \<open>
  C1 (amended). What each page's period parser returns, for every token.
  \<^item> \<^verbatim>\<open>energia.py\<close> (keys \<^verbatim>\<open>%m%Y\<close>, horizon January 2023 to December 2025): the dictionary
    is built, and a token has a date exactly when it is the two-digit month (01..12)
    followed by the four-digit year (2023..2025); the date is the first day of that month.
    Every other token has no date.
  \<^item> \<^verbatim>\<open>precio_potencia.py\<close> (keys \<^verbatim>\<open>%m%y\<close>, horizon January 2023 to today), while today is
    before the year 2123: the dictionary is built, and a token has a date exactly when it
    is the two-digit month followed by the last two digits of the year of a month from
    January 2023 to today's month; the date is the first day of that month.
  \<^item> \<^verbatim>\<open>precios_peaje_distribucion.py\<close> has no horizon: a token of five decimal digits is
    read as one digit of month and four of year, a token of six decimal digits as two
    digits of month and four of year, and the date is the first day of that month
    whenever the month is in 1..12 and the year is not 0; otherwise there is no date. A
    token of any other length has no date, every date the parser returns is the first
    day of a month, and a token that holds any character other than a decimal digit, a
    plus sign, an underscore or white space of \<^verbatim>\<open>int()\<close> has no date: letters, a minus sign,
    a dot or a slash anywhere in the token leave the column out.
\<close>

theorem period_parsers_by_page:
  assumes "year today \<le> 2122"
  shows
  "(\<exists>dm. energia_date_mapping = Some dm \<and>
     (\<forall>tok d. energia_fecha dm tok = Some d \<longleftrightarrow>
        (\<exists>y m. 2023 \<le> y \<and> y \<le> 2025 \<and> 1 \<le> m \<and> m \<le> 12
           \<and> tok = digits2 m @ digits4 y \<and> d = (y, m, 1, 0))))
   \<and> (\<exists>dm. precio_potencia_date_mapping today = Some dm \<and>
     (\<forall>tok d. precio_potencia_fecha dm tok = Some d \<longleftrightarrow>
        (\<exists>y m. 1 \<le> m \<and> m \<le> 12 \<and> d = (y, m, 1, 0) \<and> (2023, 1, 1, 0) \<le> d \<and> d \<le> today
           \<and> tok = digits2 m @ digits2 (y mod 100))))
   \<and> (\<forall>m y. m < 10 \<and> y < 10000 \<longrightarrow>
         peaje_fecha (digit_char m # digits4 y)
           = (if 1 \<le> m \<and> 1 \<le> y then Some (y, m, 1, 0) else None))
   \<and> (\<forall>m y. m < 100 \<and> y < 10000 \<longrightarrow>
         peaje_fecha (digits2 m @ digits4 y)
           = (if 1 \<le> m \<and> m \<le> 12 \<and> 1 \<le> y then Some (y, m, 1, 0) else None))
   \<and> (\<forall>period_code. length period_code \<noteq> 5 \<and> length period_code \<noteq> 6 \<longrightarrow>
         peaje_fecha period_code = None)
   \<and> (\<forall>period_code d. peaje_fecha period_code = Some d \<longrightarrow> first_of_month d)
   \<and> (\<forall>period_code.
         (\<exists>c \<in> set period_code. \<not> isdigit c \<and> c \<noteq> CHR ''_'' \<and> c \<noteq> CHR ''+'' \<and> \<not> int_isspace c)
         \<longrightarrow> peaje_fecha period_code = None)"
proof (intro conjI)
  show "\<exists>dm. energia_date_mapping = Some dm \<and>
     (\<forall>tok d. energia_fecha dm tok = Some d \<longleftrightarrow>
        (\<exists>y m. 2023 \<le> y \<and> y \<le> 2025 \<and> 1 \<le> m \<and> m \<le> 12
           \<and> tok = digits2 m @ digits4 y \<and> d = (y, m, 1, 0)))"
    by (rule energia_date_mapping_lookup)
  show "\<exists>dm. precio_potencia_date_mapping today = Some dm \<and>
     (\<forall>tok d. precio_potencia_fecha dm tok = Some d \<longleftrightarrow>
        (\<exists>y m. 1 \<le> m \<and> m \<le> 12 \<and> d = (y, m, 1, 0) \<and> (2023, 1, 1, 0) \<le> d \<and> d \<le> today
           \<and> tok = digits2 m @ digits2 (y mod 100)))"
    by (rule precio_potencia_date_mapping_lookup[OF assms])
  show "\<forall>m y. m < 10 \<and> y < 10000 \<longrightarrow>
         peaje_fecha (digit_char m # digits4 y)
           = (if 1 \<le> m \<and> 1 \<le> y then Some (y, m, 1, 0) else None)"
    by (intro allI impI, elim conjE, rule peaje_fecha_5)
  show "\<forall>m y. m < 100 \<and> y < 10000 \<longrightarrow>
         peaje_fecha (digits2 m @ digits4 y)
           = (if 1 \<le> m \<and> m \<le> 12 \<and> 1 \<le> y then Some (y, m, 1, 0) else None)"
    by (intro allI impI, elim conjE, rule peaje_fecha_6)
  show "\<forall>period_code. length period_code \<noteq> 5 \<and> length period_code \<noteq> 6 \<longrightarrow>
         peaje_fecha period_code = None"
    by (intro allI impI, elim conjE, rule peaje_fecha_other_length)
  show "\<forall>period_code d. peaje_fecha period_code = Some d \<longrightarrow> first_of_month d"
    by (intro allI impI, rule peaje_fecha_first_of_month)
  show "\<forall>period_code.
         (\<exists>c \<in> set period_code. \<not> isdigit c \<and> c \<noteq> CHR ''_'' \<and> c \<noteq> CHR ''+'' \<and> \<not> int_isspace c)
         \<longrightarrow> peaje_fecha period_code = None"
    by (intro allI impI, rule peaje_fecha_non_numeric)
qed

lemma digits_literals:
  "digits2 1 = ''01'' \<and> digits2 (Suc 0) = ''01'' \<and> digits2 6 = ''06'' \<and> digits2 13 = ''13''
   \<and> digits2 24 = ''24'' \<and> digits4 2023 = ''2023'' \<and> digit_char 1 = CHR ''1''
   \<and> digit_char (Suc 0) = CHR ''1''"
  by code_simp

text \<open>
  The statement above at concrete tokens, with today on 15 June 2024: \<^verbatim>\<open>012023\<close> is
  January 2023 in \<^verbatim>\<open>energia.py\<close> and month 13 has no date there; \<^verbatim>\<open>0624\<close> is June 2024 in
  \<^verbatim>\<open>precio_potencia.py\<close>; \<^verbatim>\<open>12023\<close> and \<^verbatim>\<open>012023\<close> are January 2023 in the toll page, month
  13, a token of four characters, the tokens \<^verbatim>\<open>abcde\<close> and \<^verbatim>\<open>ene-23\<close> of letters and the
  token \<^verbatim>\<open>-12023\<close> with a minus sign have no date there.
\<close>

theorem period_parsers_by_page_witness:
  "year (2024, 6, 15, 0) \<le> 2122
   \<and> (\<exists>dm. energia_date_mapping = Some dm
         \<and> energia_fecha dm ''012023'' = Some (2023, 1, 1, 0)
         \<and> energia_fecha dm ''132023'' = None)
   \<and> (\<exists>dm. precio_potencia_date_mapping (2024, 6, 15, 0) = Some dm
         \<and> precio_potencia_fecha dm ''0624'' = Some (2024, 6, 1, 0))
   \<and> peaje_fecha ''12023'' = Some (2023, 1, 1, 0)
   \<and> peaje_fecha ''012023'' = Some (2023, 1, 1, 0)
   \<and> peaje_fecha ''132023'' = None
   \<and> peaje_fecha ''0123'' = None
   \<and> first_of_month (2023, 1, 1, 0)
   \<and> peaje_fecha ''abcde'' = None
   \<and> peaje_fecha ''ene-23'' = None
   \<and> peaje_fecha ''-12023'' = None"
proof -
  have today: "year (2024, 6, 15, 0) \<le> 2122" by (simp add: year_def)
  note th = period_parsers_by_page[OF today]
  from th obtain dm where dm: "energia_date_mapping = Some dm"
    and en: "\<And>tok d. energia_fecha dm tok = Some d \<longleftrightarrow>
        (\<exists>y m. 2023 \<le> y \<and> y \<le> 2025 \<and> 1 \<le> m \<and> m \<le> 12
           \<and> tok = digits2 m @ digits4 y \<and> d = (y, m, 1, 0))"
    by blast
  have e1: "energia_fecha dm ''012023'' = Some (2023, 1, 1, 0)"
    unfolding en by (rule exI[of _ 2023], rule exI[of _ 1]) (simp add: digits_literals)
  have e2: "energia_fecha dm ''132023'' = None"
  proof (cases "energia_fecha dm ''132023''")
    case (Some d)
    then obtain y m where "m \<le> 12" "''132023'' = digits2 m @ digits4 y"
      unfolding en by blast
    then have "take 2 (digits2 m @ digits4 y) = take 2 ''132023''" "m < 100"
      by simp_all
    then have "digits2 m = digits2 13" "m < 100"
      by (simp_all add: digits_literals)
    then have "m = 13" by (auto intro: digits2_inj)
    with \<open>m \<le> 12\<close> show ?thesis by simp
  qed simp
  from th obtain dm' where dm': "precio_potencia_date_mapping (2024, 6, 15, 0) = Some dm'"
    and pp: "\<And>tok d. precio_potencia_fecha dm' tok = Some d \<longleftrightarrow>
        (\<exists>y m. 1 \<le> m \<and> m \<le> 12 \<and> d = (y, m, 1, 0) \<and> (2023, 1, 1, 0) \<le> d \<and> d \<le> (2024, 6, 15, 0)
           \<and> tok = digits2 m @ digits2 (y mod 100))"
    by blast
  have p1: "precio_potencia_fecha dm' ''0624'' = Some (2024, 6, 1, 0)"
    unfolding pp by (rule exI[of _ 2024], rule exI[of _ 6]) (simp add: digits_literals less_eq_prod_def)
  note p5 = th[THEN conjunct2, THEN conjunct2, THEN conjunct1, rule_format]
  note p6 = th[THEN conjunct2, THEN conjunct2, THEN conjunct2, THEN conjunct1, rule_format]
  note pl = th[THEN conjunct2, THEN conjunct2, THEN conjunct2, THEN conjunct2, THEN conjunct1,
    rule_format]
  note pf = th[THEN conjunct2, THEN conjunct2, THEN conjunct2, THEN conjunct2, THEN conjunct2,
    THEN conjunct1, rule_format]
  note pn = th[THEN conjunct2, THEN conjunct2, THEN conjunct2, THEN conjunct2, THEN conjunct2,
    THEN conjunct2, rule_format]
  have q1: "peaje_fecha ''12023'' = Some (2023, 1, 1, 0)"
    using p5[of 1 2023] by (simp add: digits_literals)
  have q2: "peaje_fecha ''012023'' = Some (2023, 1, 1, 0)"
    using p6[of 1 2023] by (simp add: digits_literals)
  have q3: "peaje_fecha ''132023'' = None"
    using p6[of 13 2023] by (simp add: digits_literals)
  have q4: "peaje_fecha ''0123'' = None"
    using pl[of "''0123''"] by simp
  have q5: "first_of_month (2023, 1, 1, 0)"
    by (rule pf[OF q1])
  have q6: "peaje_fecha ''abcde'' = None"
    by (rule pn) (simp add: isdigit_def int_isspace_def)
  have q7: "peaje_fecha ''ene-23'' = None"
    by (rule pn) (simp add: isdigit_def int_isspace_def)
  have q8: "peaje_fecha ''-12023'' = None"
    by (rule pn) (simp add: isdigit_def int_isspace_def)
  have a: "\<exists>dm. energia_date_mapping = Some dm
         \<and> energia_fecha dm ''012023'' = Some (2023, 1, 1, 0)
         \<and> energia_fecha dm ''132023'' = None"
    using dm e1 e2 by (intro exI[of _ dm] conjI)
  have b: "\<exists>dm. precio_potencia_date_mapping (2024, 6, 15, 0) = Some dm
         \<and> precio_potencia_fecha dm ''0624'' = Some (2024, 6, 1, 0)"
    using dm' p1 by (intro exI[of _ dm'] conjI)
  show ?thesis
    by (intro conjI today a b q1 q2 q3 q4 q5 q6 q7 q8)
qed

text \<open>
  C1 as stated fails on \<^verbatim>\<open>precios_peaje_distribucion.py\<close>: the token \<^verbatim>\<open>011999\<close> lies before
  January 2023, the start of every horizon the pages set up, and the token \<^verbatim>\<open>+12023\<close> is
  not numeric (\<^verbatim>\<open>int('+1')\<close> is 1); the parser gives both a date.
\<close>

theorem peaje_fecha_no_horizon_counterexample:
  "peaje_fecha ''011999'' = Some (1999, 1, 1, 0) \<and> peaje_fecha ''+12023'' = Some (2023, 1, 1, 0)"
  by (simp add: peaje_fecha_def py_int_def int_strip_def int_isspace_def int_unsigned_def
      isdigit_def digit_value_def datetime_def)

section \<open>Properties of the date filter\<close>

text \<open>
  C6. The date filter keeps exactly the records whose date lies in the closed interval
  from \<open>start_date\<close> to \<open>end_date\<close>, both ends included; when both ends are the same
  instant it keeps exactly the records of that instant, in their order; and filtering a
  filtered table by the same interval changes nothing.
\<close>

theorem df_filtered_closed_interval_idempotent:
  "set (df_filtered start_date end_date df)
     = {r. r \<in> set df \<and> start_date \<le> FECHA r \<and> FECHA r \<le> end_date}
   \<and> df_filtered start_date start_date df = filter (\<lambda>r. FECHA r = start_date) df
   \<and> df_filtered start_date end_date (df_filtered start_date end_date df)
     = df_filtered start_date end_date df"
proof -
  have same: "(\<lambda>r. FECHA r \<ge> start_date \<and> FECHA r \<le> start_date) = (\<lambda>r. FECHA r = start_date)"
    by (rule ext) (metis order.antisym order.refl)
  have "df_filtered start_date start_date df = filter (\<lambda>r. FECHA r = start_date) df"
    unfolding df_filtered_def same ..
  moreover have "set (df_filtered start_date end_date df)
     = {r. r \<in> set df \<and> start_date \<le> FECHA r \<and> FECHA r \<le> end_date}"
    by (auto simp: df_filtered_def)
  ultimately show ?thesis
    by (simp add: df_filtered_def)
qed

section \<open>Loaders: what the caller observes\<close>

text \<open>
  C10. Whatever the environment, \<^verbatim>\<open>load_and_transform_data\<close> of \<^verbatim>\<open>energia.py\<close> and of
  \<^verbatim>\<open>precios_peaje_distribucion.py\<close> returns \<^verbatim>\<open>None\<close> when the data directory is missing
  (\<^verbatim>\<open>energia.py\<close> checks it), when the file is missing, when \<^verbatim>\<open>pd.read_excel\<close> raises,
  when the workbook is empty, and when any statement of the body of \<^verbatim>\<open>try\<close> raises; and
  the page stops when the result is \<^verbatim>\<open>None\<close>.
\<close>

theorem load_and_transform_data_returns_None:
  "(\<not> base_path_exists env \<longrightarrow> energia_load_and_transform_data env = None)
   \<and> (\<not> file_path_exists env \<longrightarrow>
         energia_load_and_transform_data env = None
         \<and> peaje_load_and_transform_data to_numeric env = None)
   \<and> (\<forall>e. read_excel env = Inl e \<longrightarrow>
         energia_load_and_transform_data env = None
         \<and> peaje_load_and_transform_data to_numeric env = None)
   \<and> (\<forall>df. read_excel env = Inr df \<and> df_empty df \<longrightarrow>
         energia_load_and_transform_data env = None
         \<and> peaje_load_and_transform_data to_numeric env = None)
   \<and> (\<forall>e. energia_try env = Inl e \<longrightarrow> energia_load_and_transform_data env = None)
   \<and> (\<forall>e. peaje_try to_numeric env = Inl e \<longrightarrow>
         peaje_load_and_transform_data to_numeric env = None)
   \<and> (energia_load_and_transform_data env = None \<longrightarrow> energia_page env = Stopped)
   \<and> (peaje_load_and_transform_data to_numeric env = None \<longrightarrow>
         peaje_page to_numeric env = Stopped)"
proof (intro conjI)
  show "\<not> base_path_exists env \<longrightarrow> energia_load_and_transform_data env = None"
    by (simp add: energia_load_and_transform_data_def energia_try_def)
  show "\<not> file_path_exists env \<longrightarrow>
         energia_load_and_transform_data env = None
         \<and> peaje_load_and_transform_data to_numeric env = None"
    by (simp add: energia_load_and_transform_data_def energia_try_def
        peaje_load_and_transform_data_def peaje_try_def)
  show "\<forall>e. read_excel env = Inl e \<longrightarrow>
         energia_load_and_transform_data env = None
         \<and> peaje_load_and_transform_data to_numeric env = None"
    by (auto simp: energia_load_and_transform_data_def energia_try_def
        peaje_load_and_transform_data_def peaje_try_def)
  show "\<forall>df. read_excel env = Inr df \<and> df_empty df \<longrightarrow>
         energia_load_and_transform_data env = None
         \<and> peaje_load_and_transform_data to_numeric env = None"
    by (auto simp: energia_load_and_transform_data_def energia_try_def
        peaje_load_and_transform_data_def peaje_try_def)
  show "\<forall>e. energia_try env = Inl e \<longrightarrow> energia_load_and_transform_data env = None"
    by (auto simp: energia_load_and_transform_data_def)
  show "\<forall>e. peaje_try to_numeric env = Inl e \<longrightarrow>
         peaje_load_and_transform_data to_numeric env = None"
    by (auto simp: peaje_load_and_transform_data_def)
  show "energia_load_and_transform_data env = None \<longrightarrow> energia_page env = Stopped"
    by (simp add: energia_page_def)
  show "peaje_load_and_transform_data to_numeric env = None \<longrightarrow>
         peaje_page to_numeric env = Stopped"
    by (simp add: peaje_page_def)
qed


lemma labels_contain:
  "contains energia_label (energia_label @ '' 012023'')
   \<and> \<not> contains energia_label (peaje_label @ '' 012023'')
   \<and> contains peaje_label (peaje_label @ '' 012023'')
   \<and> \<not> contains peaje_label (energia_label @ '' 012023'')"
  by code_simp

lemma labels_last_word:
  "last_word (energia_label @ '' 012023'') = Inr ''012023''
   \<and> last_word (peaje_label @ '' 012023'') = Inr ''012023''
   \<and> str_strip (energia_label @ '' 012023'') = energia_label @ '' 012023''
   \<and> str_strip (peaje_label @ '' 012023'') = peaje_label @ '' 012023''
   \<and> str_strip ''012023'' = ''012023''"
  by code_simp


lemma no_AGENTE_raises:
  "energia_try no_AGENTE = Inl KeyError \<and> peaje_try to_numeric no_AGENTE = Inl KeyError"
proof -
  from energia_date_mapping_lookup obtain dm where dm: "energia_date_mapping = Some dm"
    by blast
  have p: "peaje_fecha ''012023'' = Some (2023, 1, 1, 0)"
    using peaje_fecha_6[of 1 2023] by (simp add: digits_literals)
  have "energia_try no_AGENTE = Inl KeyError"
    by (simp add: energia_try_def no_AGENTE_def df_empty_def energia_transform_def dm
        price_columns_def labels_contain labels_last_word identity_columns_def)
  moreover have "peaje_try to_numeric no_AGENTE = Inl KeyError"
    by (simp add: peaje_try_def no_AGENTE_def df_empty_def p
        price_columns_def labels_contain labels_last_word identity_columns_def)
  ultimately show ?thesis by simp
qed

text \<open>
  The statement above in the four environments: both loaders return \<^verbatim>\<open>None\<close> and both
  pages stop.
\<close>

theorem load_and_transform_data_returns_None_witness:
  "\<not> base_path_exists no_directory
   \<and> energia_load_and_transform_data no_directory = None
   \<and> peaje_load_and_transform_data (\<lambda>s. None) no_directory = None
   \<and> read_excel unreadable_file = Inl ValueError
   \<and> energia_load_and_transform_data unreadable_file = None
   \<and> peaje_load_and_transform_data (\<lambda>s. None) unreadable_file = None
   \<and> (\<exists>df. read_excel header_only = Inr df \<and> df_empty df)
   \<and> energia_load_and_transform_data header_only = None
   \<and> peaje_load_and_transform_data (\<lambda>s. None) header_only = None
   \<and> energia_try no_AGENTE = Inl KeyError
   \<and> peaje_try (\<lambda>s. None) no_AGENTE = Inl KeyError
   \<and> energia_load_and_transform_data no_AGENTE = None
   \<and> peaje_load_and_transform_data (\<lambda>s. None) no_AGENTE = None
   \<and> energia_page no_AGENTE = Stopped
   \<and> peaje_page (\<lambda>s. None) no_AGENTE = Stopped"
proof -
  note a = load_and_transform_data_returns_None[of no_directory "\<lambda>s. None"]
  note b = load_and_transform_data_returns_None[of unreadable_file "\<lambda>s. None"]
  note c = load_and_transform_data_returns_None[of header_only "\<lambda>s. None"]
  note d = load_and_transform_data_returns_None[of no_AGENTE "\<lambda>s. None"]
  have a0: "\<not> base_path_exists no_directory" "\<not> file_path_exists no_directory"
    by (simp_all add: no_directory_def)
  have a1: "energia_load_and_transform_data no_directory = None"
    by (rule a[THEN conjunct1, rule_format, OF a0(1)])
  have a2: "peaje_load_and_transform_data (\<lambda>s. None) no_directory = None"
    by (rule a[THEN conjunct2, THEN conjunct1, rule_format, OF a0(2), THEN conjunct2])
  have b0: "read_excel unreadable_file = Inl ValueError"
    by (simp add: unreadable_file_def)
  note b1 = b[THEN conjunct2, THEN conjunct2, THEN conjunct1, rule_format, OF b0]
  have c0: "read_excel header_only = Inr \<lparr>n_rows = 0, AGENTE_column = Some [],
       EMPRESA_column = Some [], columns = [(Str (energia_label @ '' 012023''), [])]\<rparr>
     \<and> df_empty \<lparr>n_rows = 0, AGENTE_column = Some [],
       EMPRESA_column = Some [], columns = [(Str (energia_label @ '' 012023''), [])]\<rparr>"
    by (simp add: header_only_def df_empty_def)
  then have c0': "\<exists>df. read_excel header_only = Inr df \<and> df_empty df" by blast
  note c1 = c[THEN conjunct2, THEN conjunct2, THEN conjunct2, THEN conjunct1, rule_format, OF c0]
  note r = no_AGENTE_raises[of "\<lambda>s. None"]
  have d1: "energia_load_and_transform_data no_AGENTE = None"
    by (rule d[THEN conjunct2, THEN conjunct2, THEN conjunct2, THEN conjunct2, THEN conjunct1,
        rule_format, OF r[THEN conjunct1]])
  have d2: "peaje_load_and_transform_data (\<lambda>s. None) no_AGENTE = None"
    by (rule d[THEN conjunct2, THEN conjunct2, THEN conjunct2, THEN conjunct2, THEN conjunct2,
        THEN conjunct1, rule_format, OF r[THEN conjunct2]])
  have d3: "energia_page no_AGENTE = Stopped"
    by (rule d[THEN conjunct2, THEN conjunct2, THEN conjunct2, THEN conjunct2, THEN conjunct2,
        THEN conjunct2, THEN conjunct1, rule_format, OF d1])
  have d4: "peaje_page (\<lambda>s. None) no_AGENTE = Stopped"
    by (rule d[THEN conjunct2, THEN conjunct2, THEN conjunct2, THEN conjunct2, THEN conjunct2,
        THEN conjunct2, THEN conjunct2, rule_format, OF d2])
  show ?thesis
    by (intro conjI a0(1) a1 a2 b0 b1[THEN conjunct1] b1[THEN conjunct2] c0'
        c1[THEN conjunct1] c1[THEN conjunct2] r[THEN conjunct1] r[THEN conjunct2] d1 d2 d3 d4)
qed

section \<open>Properties of the reshape\<close>

lemma strip_labels_cells:
  "strip_labels cs = Inr cols \<Longrightarrow> map snd cols = map snd cs"
proof (induction cs arbitrary: cols rule: strip_labels.induct)
  case 1
  then show ?case by simp
next
  case (2 cells cols')
  then show ?case by simp
next
  case (3 s cells cs)
  then show ?case by (auto split: sum.splits)
qed

lemma strip_labels_rectangular:
  assumes "strip_labels (columns df) = Inr cols" "rectangular df" "c \<in> set cols"
  shows "length (snd c) = n_rows df"
proof -
  from assms(3) have "snd c \<in> set (map snd cols)" by simp
  then have "snd c \<in> set (map snd (columns df))"
    by (simp only: strip_labels_cells[OF assms(1)])
  then obtain c' where "c' \<in> set (columns df)" "snd c' = snd c" by auto
  with assms(2) show ?thesis by (auto simp: rectangular_def list_all_iff)
qed

lemma column_cells_mem:
  "column_cells cols col = Some cells \<Longrightarrow> \<exists>c \<in> set cols. snd c = cells"
proof -
  assume a: "column_cells cols col = Some cells"
  then obtain c where c: "filter (\<lambda>c. fst c = col) cols = [c]" "snd c = cells"
    by (auto simp: column_cells_def split: list.splits)
  then have "c \<in> set (filter (\<lambda>c. fst c = col) cols)" by simp
  then have "c \<in> set cols" by simp
  with c(2) show ?thesis by blast
qed

lemma identity_columns_length:
  "identity_columns df = Inr ids \<Longrightarrow> rectangular df \<Longrightarrow> length ids = n_rows df"
  by (auto simp: identity_columns_def rectangular_def split: option.splits)

lemma notna_FECHA_append: "notna_FECHA (xs @ ys) = notna_FECHA xs @ notna_FECHA ys"
  by (simp add: notna_FECHA_def map_filter_def)

lemma dropna_append: "dropna (xs @ ys) = dropna xs @ dropna ys"
  by (simp add: dropna_def map_filter_def)

lemma notna_FECHA_temp_df_None: "notna_FECHA (temp_df ids cells None p) = []"
  by (induction ids arbitrary: cells; case_tac cells)
     (auto simp: notna_FECHA_def temp_df_def map_filter_def)

lemma notna_FECHA_temp_df_Some:
  "notna_FECHA (temp_df ids cells (Some d) p)
     = map (\<lambda>((a, e), v). \<lparr>AGENTE = a, EMPRESA = e, FECHA = d, valor = v, Periodo = p\<rparr>)
         (zip ids cells)"
  by (induction ids arbitrary: cells; case_tac cells)
     (auto simp: notna_FECHA_def temp_df_def map_filter_def)

lemma dropna_temp_df:
  "dropna (temp_df ids cells (Some d) p)
     = map (\<lambda>((a, e), v). \<lparr>AGENTE = a, EMPRESA = e, FECHA = d, valor = v, Periodo = p\<rparr>)
         (filter (\<lambda>(i, v). \<exists>x. v = Num x) (zip ids cells))"
  by (induction ids arbitrary: cells; case_tac cells)
     (auto simp: dropna_def temp_df_def map_filter_def split: cell.splits)

lemma energia_dfs_rows:
  assumes "energia_dfs dm df cols ps = Inr dfs" "rectangular df"
    "\<forall>c \<in> set cols. length (snd c) = n_rows df"
  shows "length (notna_FECHA (concat dfs)) = n_rows df * length (filter (energia_period_parsed dm) ps)
    \<and> (\<forall>r \<in> set (notna_FECHA (concat dfs)). \<exists>p. energia_fecha dm p = Some (FECHA r))"
  using assms(1)
proof (induction ps arbitrary: dfs)
  case Nil
  then show ?case by (simp add: notna_FECHA_def map_filter_def)
next
  case (Cons col rest)
  from Cons.prems obtain period ids cells dfs' where
    w: "last_word col = Inr period" and ids: "identity_columns df = Inr ids"
    and cells: "column_cells cols col = Some cells"
    and rest: "energia_dfs dm df cols rest = Inr dfs'"
    and dfs: "dfs = temp_df ids cells (energia_fecha dm period) period # dfs'"
    by (auto split: sum.splits option.splits)
  note IH = Cons.IH[OF rest]
  from column_cells_mem[OF cells] assms(3) have lc: "length cells = n_rows df" by auto
  from identity_columns_length[OF ids assms(2)] have li: "length ids = n_rows df" .
  show ?case
  proof (cases "energia_fecha dm period")
    case None
    then have "\<not> energia_period_parsed dm col" by (simp add: energia_period_parsed_def w)
    with None IH show ?thesis
      by (simp add: dfs notna_FECHA_append notna_FECHA_temp_df_None)
  next
    case (Some d)
    then have "energia_period_parsed dm col" by (simp add: energia_period_parsed_def w)
    moreover have "length (notna_FECHA (temp_df ids cells (Some d) period)) = n_rows df"
      by (simp add: notna_FECHA_temp_df_Some lc li)
    moreover have "\<forall>r \<in> set (notna_FECHA (temp_df ids cells (Some d) period)). FECHA r = d"
      by (auto simp: notna_FECHA_temp_df_Some)
    ultimately show ?thesis using IH Some
      by (auto simp: dfs notna_FECHA_append)
  qed
qed

lemma peaje_dfs_rows:
  assumes "peaje_dfs tn df cols ps = Inr dfs" "rectangular df"
    "\<forall>c \<in> set cols. length (snd c) = n_rows df"
  shows "length (dropna (concat dfs)) \<le> n_rows df * length (filter peaje_period_parsed ps)
    \<and> (\<forall>r \<in> set (dropna (concat dfs)). \<exists>p. peaje_fecha p = Some (FECHA r))"
  using assms(1)
proof (induction ps arbitrary: dfs)
  case Nil
  then show ?case by (simp add: dropna_def map_filter_def)
next
  case (Cons col rest)
  from Cons.prems obtain w where w: "last_word col = Inr w"
    by (auto split: sum.splits)
  show ?case
  proof (cases "peaje_fecha (str_strip w)")
    case None
    then have "\<not> peaje_period_parsed col" by (simp add: peaje_period_parsed_def w)
    moreover from Cons.prems None w have "peaje_dfs tn df cols rest = Inr dfs" by simp
    ultimately show ?thesis using Cons.IH by simp
  next
    case (Some d)
    with Cons.prems w obtain ids cells dfs' where
      ids: "identity_columns df = Inr ids"
      and cells: "column_cells cols col = Some cells"
      and rest: "peaje_dfs tn df cols rest = Inr dfs'"
      and dfs: "dfs = temp_df ids (map (coerce tn) cells) (Some d) (str_strip w) # dfs'"
      by (auto split: sum.splits option.splits)
    note IH = Cons.IH[OF rest]
    from column_cells_mem[OF cells] assms(3) have lc: "length cells = n_rows df" by auto
    from identity_columns_length[OF ids assms(2)] have li: "length ids = n_rows df" .
    have p: "peaje_period_parsed col" using Some by (simp add: peaje_period_parsed_def w)
    have "length (dropna (temp_df ids (map (coerce tn) cells) (Some d) (str_strip w)))
        \<le> length (zip ids (map (coerce tn) cells))"
      unfolding dropna_temp_df length_map by (rule length_filter_le)
    then have l: "length (dropna (temp_df ids (map (coerce tn) cells) (Some d) (str_strip w)))
        \<le> n_rows df"
      by (simp add: lc li)
    have f: "\<forall>r \<in> set (dropna (temp_df ids (map (coerce tn) cells) (Some d) (str_strip w))).
        FECHA r = d"
      by (auto simp: dropna_temp_df)
    from IH l p f Some show ?thesis
      by (auto simp: dfs dropna_append)
  qed
qed

lemma filter_all:
  assumes "length (filter P xs) = length xs"
  shows "\<forall>x \<in> set xs. P x"
proof (rule ccontr)
  assume "\<not> (\<forall>x \<in> set xs. P x)"
  then obtain x where x: "x \<in> set xs" "\<not> P x" by blast
  have "length (filter P xs) < length xs" by (rule length_filter_less[of x xs P, OF x])
  with assms show False by simp
qed

lemma energia_fecha_first_of_month:
  assumes "energia_date_mapping = Some dm" "energia_fecha dm p = Some d"
  shows "first_of_month d"
proof -
  from energia_date_mapping_lookup obtain dm' where dm': "energia_date_mapping = Some dm'"
    and l: "\<And>tok d. energia_fecha dm' tok = Some d \<longleftrightarrow>
       (\<exists>y m. 2023 \<le> y \<and> y \<le> 2025 \<and> 1 \<le> m \<and> m \<le> 12
           \<and> tok = digits2 m @ digits4 y \<and> d = (y, m, 1, 0))"
    by blast
  from dm' assms(1) have "Some dm' = Some dm" by (rule subst)
  then have "dm' = dm" by (rule option.inject[THEN iffD1])
  with l[of p d] assms(2) obtain y m where
    "2023 \<le> y" "y \<le> 2025" "1 \<le> m" "m \<le> 12" "d = (y, m, 1, 0)"
    by blast
  then show ?thesis by (simp add: first_of_month_def)
qed

lemma energia_load_Some:
  assumes "energia_load_and_transform_data env = Some long" "read_excel env = Inr df"
    "strip_labels (columns df) = Inr cols"
  shows "\<exists>dm dfs. energia_date_mapping = Some dm
    \<and> energia_dfs dm df cols (price_columns energia_label cols) = Inr dfs
    \<and> long = notna_FECHA (concat dfs) \<and> 0 < n_rows df"
proof -
  from assms(1) have t: "energia_try env = Inr (Some long)"
    by (auto simp: energia_load_and_transform_data_def split: sum.splits)
  with assms(2) have e: "\<not> df_empty df" and tr: "energia_transform df = Inr long"
    by (auto simp: energia_try_def split: if_splits sum.splits)
  from e have "0 < n_rows df" by (simp add: df_empty_def)
  with tr assms(3) show ?thesis
    by (auto simp: energia_transform_def split: option.splits sum.splits if_splits)
qed

lemma peaje_load_Some:
  assumes "peaje_load_and_transform_data tn env = Some long" "read_excel env = Inr df"
    "strip_labels (columns df) = Inr cols"
  shows "\<exists>dfs. peaje_dfs tn df cols (price_columns peaje_label cols) = Inr dfs
    \<and> long = dropna (concat dfs) \<and> 0 < n_rows df"
proof -
  from assms(1) have t: "peaje_try tn env = Inr (Some long)"
    by (auto simp: peaje_load_and_transform_data_def split: sum.splits)
  with assms(2) have e: "\<not> df_empty df"
    by (auto simp: peaje_try_def split: if_splits sum.splits)
  from e have "0 < n_rows df" by (simp add: df_empty_def)
  with t assms(2,3) e show ?thesis
    by (auto simp: peaje_try_def split: sum.splits if_splits)
qed

lemma energia_row_count:
  assumes "read_excel env = Inr df" "rectangular df" "strip_labels (columns df) = Inr cols"
    "energia_load_and_transform_data env = Some long"
  shows "(\<exists>dm. energia_date_mapping = Some dm
         \<and> length long = n_rows df
             * length (filter (energia_period_parsed dm) (price_columns energia_label cols))
         \<and> (length long = n_rows df * length (price_columns energia_label cols)
              \<longrightarrow> (\<forall>col \<in> set (price_columns energia_label cols). energia_period_parsed dm col)))
      \<and> length long \<le> n_rows df * length (price_columns energia_label cols)
      \<and> (\<forall>r \<in> set long. first_of_month (FECHA r))"
proof -
  from energia_load_Some[OF assms(4,1,3)] obtain dm dfs where
    dm: "energia_date_mapping = Some dm"
    and dfs: "energia_dfs dm df cols (price_columns energia_label cols) = Inr dfs"
    and long: "long = notna_FECHA (concat dfs)" and n: "0 < n_rows df" by blast
  have rc: "\<forall>c \<in> set cols. length (snd c) = n_rows df"
    using strip_labels_rectangular[OF assms(3,2)] by blast
  note R = energia_dfs_rows[OF dfs assms(2) rc, folded long]
  let ?ps = "price_columns energia_label cols"
  from R have len: "length long = n_rows df * length (filter (energia_period_parsed dm) ?ps)"
    by (rule conjunct1)
  have le: "length (filter (energia_period_parsed dm) ?ps) \<le> length ?ps"
    by (rule length_filter_le)
  have a: "length long \<le> n_rows df * length ?ps"
    unfolding len using le by (rule mult_le_mono2)
  have b: "length long = n_rows df * length ?ps
      \<longrightarrow> (\<forall>col \<in> set ?ps. energia_period_parsed dm col)"
  proof
    assume "length long = n_rows df * length ?ps"
    with len n have "length (filter (energia_period_parsed dm) ?ps) = length ?ps" by simp
    then show "\<forall>col \<in> set ?ps. energia_period_parsed dm col" by (rule filter_all)
  qed
  have c: "\<forall>r \<in> set long. first_of_month (FECHA r)"
  proof
    fix r assume "r \<in> set long"
    with R obtain p where "energia_fecha dm p = Some (FECHA r)" by blast
    then show "first_of_month (FECHA r)" by (rule energia_fecha_first_of_month[OF dm])
  qed
  from dm len b have "\<exists>dm. energia_date_mapping = Some dm
         \<and> length long = n_rows df * length (filter (energia_period_parsed dm) ?ps)
         \<and> (length long = n_rows df * length ?ps
              \<longrightarrow> (\<forall>col \<in> set ?ps. energia_period_parsed dm col))"
    by blast
  with a c show ?thesis by blast
qed

lemma peaje_row_count:
  assumes "read_excel env = Inr df" "rectangular df" "strip_labels (columns df) = Inr cols"
    "peaje_load_and_transform_data to_numeric env = Some long"
  shows "length long
        \<le> n_rows df * length (filter peaje_period_parsed (price_columns peaje_label cols))
      \<and> length long \<le> n_rows df * length (price_columns peaje_label cols)
      \<and> (length long = n_rows df * length (price_columns peaje_label cols)
           \<longrightarrow> (\<forall>col \<in> set (price_columns peaje_label cols). peaje_period_parsed col))
      \<and> (\<forall>r \<in> set long. first_of_month (FECHA r))"
proof -
  from peaje_load_Some[OF assms(4,1,3)] obtain dfs where
    dfs: "peaje_dfs to_numeric df cols (price_columns peaje_label cols) = Inr dfs"
    and long: "long = dropna (concat dfs)" and n: "0 < n_rows df" by blast
  have rc: "\<forall>c \<in> set cols. length (snd c) = n_rows df"
    using strip_labels_rectangular[OF assms(3,2)] by blast
  note R = peaje_dfs_rows[OF dfs assms(2) rc, folded long]
  let ?ps = "price_columns peaje_label cols"
  from R have len: "length long \<le> n_rows df * length (filter peaje_period_parsed ?ps)"
    by (rule conjunct1)
  have le: "length (filter peaje_period_parsed ?ps) \<le> length ?ps"
    by (rule length_filter_le)
  have le': "n_rows df * length (filter peaje_period_parsed ?ps) \<le> n_rows df * length ?ps"
    using le by (rule mult_le_mono2)
  have a: "length long \<le> n_rows df * length ?ps"
    using len le' by (rule order_trans)
  have b: "length long = n_rows df * length ?ps
      \<longrightarrow> (\<forall>col \<in> set ?ps. peaje_period_parsed col)"
  proof
    assume "length long = n_rows df * length ?ps"
    with len have "n_rows df * length ?ps \<le> n_rows df * length (filter peaje_period_parsed ?ps)"
      by simp
    with n have "length ?ps \<le> length (filter peaje_period_parsed ?ps)" by simp
    with le have "length (filter peaje_period_parsed ?ps) = length ?ps" by (rule order_antisym)
    then show "\<forall>col \<in> set ?ps. peaje_period_parsed col" by (rule filter_all)
  qed
  have c: "\<forall>r \<in> set long. first_of_month (FECHA r)"
  proof
    fix r assume "r \<in> set long"
    with R obtain p where "peaje_fecha p = Some (FECHA r)" by blast
    then show "first_of_month (FECHA r)" by (rule peaje_fecha_first_of_month)
  qed
  from len a b c show ?thesis by blast
qed

text \<open>
  C5. For a table read from the file, with one cell per row in every column and string
  labels: the long table that \<^verbatim>\<open>energia.py\<close> returns has exactly (rows) times (selected
  columns whose period has a date) records, the one of \<^verbatim>\<open>precios_peaje_distribucion.py\<close>
  has at most that many; so both have at most (rows) times (selected columns) records,
  with equality only when the period of every selected column has a date; and the date
  of every record is the first day of a month.
\<close>

theorem reshape_row_count:
  assumes "read_excel env = Inr df" "rectangular df" "strip_labels (columns df) = Inr cols"
  shows
  "(\<forall>long. energia_load_and_transform_data env = Some long \<longrightarrow>
      (\<exists>dm. energia_date_mapping = Some dm
         \<and> length long = n_rows df
             * length (filter (energia_period_parsed dm) (price_columns energia_label cols))
         \<and> (length long = n_rows df * length (price_columns energia_label cols)
              \<longrightarrow> (\<forall>col \<in> set (price_columns energia_label cols). energia_period_parsed dm col)))
      \<and> length long \<le> n_rows df * length (price_columns energia_label cols)
      \<and> (\<forall>r \<in> set long. first_of_month (FECHA r)))
   \<and> (\<forall>long. peaje_load_and_transform_data to_numeric env = Some long \<longrightarrow>
      length long
        \<le> n_rows df * length (filter peaje_period_parsed (price_columns peaje_label cols))
      \<and> length long \<le> n_rows df * length (price_columns peaje_label cols)
      \<and> (length long = n_rows df * length (price_columns peaje_label cols)
           \<longrightarrow> (\<forall>col \<in> set (price_columns peaje_label cols). peaje_period_parsed col))
      \<and> (\<forall>r \<in> set long. first_of_month (FECHA r)))"
proof (rule conjI)
  show "\<forall>long. energia_load_and_transform_data env = Some long \<longrightarrow>
      (\<exists>dm. energia_date_mapping = Some dm
         \<and> length long = n_rows df
             * length (filter (energia_period_parsed dm) (price_columns energia_label cols))
         \<and> (length long = n_rows df * length (price_columns energia_label cols)
              \<longrightarrow> (\<forall>col \<in> set (price_columns energia_label cols). energia_period_parsed dm col)))
      \<and> length long \<le> n_rows df * length (price_columns energia_label cols)
      \<and> (\<forall>r \<in> set long. first_of_month (FECHA r))"
    by (intro allI impI, rule energia_row_count[OF assms])
  show "\<forall>long. peaje_load_and_transform_data to_numeric env = Some long \<longrightarrow>
      length long
        \<le> n_rows df * length (filter peaje_period_parsed (price_columns peaje_label cols))
      \<and> length long \<le> n_rows df * length (price_columns peaje_label cols)
      \<and> (length long = n_rows df * length (price_columns peaje_label cols)
           \<longrightarrow> (\<forall>col \<in> set (price_columns peaje_label cols). peaje_period_parsed col))
      \<and> (\<forall>r \<in> set long. first_of_month (FECHA r))"
    by (intro allI impI, rule peaje_row_count[OF assms])
qed

lemma two_agents_facts:
  "rectangular two_agents \<and> \<not> df_empty two_agents
   \<and> strip_labels (columns two_agents) = Inr two_agents_columns
   \<and> identity_columns two_agents = Inr [(Some ''X'', Some ''A''), (Some ''Y'', Some ''A'')]
   \<and> price_columns energia_label two_agents_columns = [energia_label @ '' 012023'']
   \<and> price_columns peaje_label two_agents_columns
       = [peaje_label @ '' 012023'', peaje_label @ '' 132023'']
   \<and> last_word (energia_label @ '' 012023'') = Inr ''012023''
   \<and> last_word (peaje_label @ '' 012023'') = Inr ''012023''
   \<and> last_word (peaje_label @ '' 132023'') = Inr ''132023''
   \<and> str_strip ''012023'' = ''012023'' \<and> str_strip ''132023'' = ''132023''
   \<and> column_cells two_agents_columns (energia_label @ '' 012023'') = Some [Num 100, Num 200]
   \<and> column_cells two_agents_columns (peaje_label @ '' 012023'') = Some [Num 3, Blank]"
  by code_simp

lemma energia_fecha_examples:
  assumes "energia_date_mapping = Some dm"
  shows "energia_fecha dm ''012023'' = Some (2023, 1, 1, 0)"
proof -
  from energia_date_mapping_lookup obtain dm' where dm': "energia_date_mapping = Some dm'"
    and l: "\<And>tok d. energia_fecha dm' tok = Some d \<longleftrightarrow>
       (\<exists>y m. 2023 \<le> y \<and> y \<le> 2025 \<and> 1 \<le> m \<and> m \<le> 12
           \<and> tok = digits2 m @ digits4 y \<and> d = (y, m, 1, 0))"
    by blast
  from dm' assms have "Some dm' = Some dm" by (rule subst)
  then have e: "dm' = dm" by (rule option.inject[THEN iffD1])
  have "energia_fecha dm' ''012023'' = Some (2023, 1, 1, 0)"
    unfolding l by (rule exI[of _ 2023], rule exI[of _ 1]) (simp add: digits_literals)
  then show ?thesis unfolding e .
qed

lemma peaje_fecha_examples:
  "peaje_fecha ''012023'' = Some (2023, 1, 1, 0) \<and> peaje_fecha ''132023'' = None"
  using peaje_fecha_6[of 1 2023] peaje_fecha_6[of 13 2023] by (simp add: digits_literals)

lemma two_agents_energia:
  "energia_load_and_transform_data two_agents_file
     = Some [\<lparr>AGENTE = Some ''X'', EMPRESA = Some ''A'', FECHA = (2023, 1, 1, 0),
               valor = Num 100, Periodo = ''012023''\<rparr>,
             \<lparr>AGENTE = Some ''Y'', EMPRESA = Some ''A'', FECHA = (2023, 1, 1, 0),
               valor = Num 200, Periodo = ''012023''\<rparr>]"
proof -
  from energia_date_mapping_lookup obtain dm where dm: "energia_date_mapping = Some dm"
    by blast
  show ?thesis
    by (simp add: energia_load_and_transform_data_def energia_try_def two_agents_file_def
        energia_transform_def dm two_agents_facts energia_fecha_examples[OF dm]
        temp_df_def notna_FECHA_def map_filter_def)
qed

lemma two_agents_peaje:
  "peaje_load_and_transform_data (\<lambda>s. None) two_agents_file
     = Some [\<lparr>AGENTE = Some ''X'', EMPRESA = Some ''A'', FECHA = (2023, 1, 1, 0),
               valor = Num 3, Periodo = ''012023''\<rparr>]"
  by (simp add: peaje_load_and_transform_data_def peaje_try_def two_agents_file_def
      two_agents_facts peaje_fecha_examples temp_df_def dropna_def map_filter_def coerce_def)

text \<open>
  The statement above on a sheet of two rows with one energy column (\<^verbatim>\<open>012023\<close>) and two
  toll columns (\<^verbatim>\<open>012023\<close> with one blank cell, and \<^verbatim>\<open>132023\<close>, which has no date):
  \<^verbatim>\<open>energia.py\<close> returns two records, which is rows times selected columns, and
  \<^verbatim>\<open>precios_peaje_distribucion.py\<close> returns one record, fewer than the four of rows times
  selected columns; the records are dated 1 January 2023.
\<close>

theorem reshape_row_count_witness:
  "read_excel two_agents_file = Inr two_agents \<and> rectangular two_agents
   \<and> strip_labels (columns two_agents) = Inr two_agents_columns
   \<and> (\<exists>long. energia_load_and_transform_data two_agents_file = Some long
         \<and> length long = 2
         \<and> length long \<le> n_rows two_agents
              * length (price_columns energia_label two_agents_columns))
   \<and> (\<exists>long. peaje_load_and_transform_data (\<lambda>s. None) two_agents_file = Some long
         \<and> length long = 1
         \<and> length long \<le> n_rows two_agents
              * length (price_columns peaje_label two_agents_columns))
   \<and> first_of_month (2023, 1, 1, 0)"
proof -
  have h1: "read_excel two_agents_file = Inr two_agents" by (simp add: two_agents_file_def)
  have h2: "rectangular two_agents" by (rule two_agents_facts[THEN conjunct1])
  have h3: "strip_labels (columns two_agents) = Inr two_agents_columns"
    by (rule two_agents_facts[THEN conjunct2, THEN conjunct2, THEN conjunct1])
  note th = reshape_row_count[OF h1 h2 h3, of "\<lambda>s. None"]
  note E = th[THEN conjunct1, rule_format, OF two_agents_energia]
  note P = th[THEN conjunct2, rule_format, OF two_agents_peaje]
  have e: "\<exists>long. energia_load_and_transform_data two_agents_file = Some long
         \<and> length long = 2
         \<and> length long \<le> n_rows two_agents
              * length (price_columns energia_label two_agents_columns)"
    using E[THEN conjunct2, THEN conjunct1] by (simp add: two_agents_energia)
  have p: "\<exists>long. peaje_load_and_transform_data (\<lambda>s. None) two_agents_file = Some long
         \<and> length long = 1
         \<and> length long \<le> n_rows two_agents
              * length (price_columns peaje_label two_agents_columns)"
    using P[THEN conjunct2, THEN conjunct1] by (simp add: two_agents_peaje)
  have f: "first_of_month (2023, 1, 1, 0)"
    using P[THEN conjunct2, THEN conjunct2, THEN conjunct2] by simp
  show ?thesis by (intro conjI h1 h2 h3 e p f)
qed

end
